theory Spec2Isabelle
  imports Main
begin

section \<open>Python exceptions\<close>

text \<open>
  The exceptions that the modelled functions raise or let through. A raise is the
  left injection of a sum type, a normal return the right one.
\<close>

datatype exn =
    ValueError string
  | ProcessExecutionError
  | GithubException
  | PlainException string
  | OSError
  | NameError string
  | AttributeError string

section \<open>\<open>_webstate.py\<close>: the state handler\<close>

text \<open>
  The fields of \<open>StateHandler.__init__\<close>. \<open>await_key\<close> and \<open>response_val\<close> are
  nullable: \<open>None\<close> is Python's \<open>None\<close>. \<open>started_at = 0\<close> stands for
  \<open>datetime.datetime.min\<close>; \<open>thread\<close> is the thread handle (its name) or \<open>None\<close>.
  The condition variable has no field: its lock is the atomicity of the steps below.
\<close>

record ('k, 'v) StateHandler =
  alive :: bool
  started_at :: nat
  messages :: "string list"
  await_key :: "'k option"
  response_val :: "'v option"
  thread :: "string option"

definition init :: "('k, 'v) StateHandler" where
  "init = \<lparr>alive = False, started_at = 0, messages = [], await_key = None,
           response_val = None, thread = None\<rparr>"

definition send :: "string \<Rightarrow> ('k, 'v) StateHandler \<Rightarrow> ('k, 'v) StateHandler" where
  "send message s = s\<lparr>messages := messages s @ [message]\<rparr>"

definition answer :: "'v option \<Rightarrow> ('k, 'v) StateHandler \<Rightarrow> ('k, 'v) StateHandler" where
  \<comment> \<open>Modelled from the spec: the answering side of the channel, which is not among the
     source files. \<open>answer(value)\<close> sets the answer slot and notifies the condition
     variable; with no question outstanding it is a no-op; the question slot is
     cleared the instant the answer is delivered.\<close>
  "answer v s =
     (if await_key s = None then s else s\<lparr>response_val := v, await_key := None\<rparr>)"

text \<open>
  \<open>self.condition.wait(10)\<close> releases the lock and gives it back after a notification or
  after the timeout, whichever comes first. What the worker finds on waking is the
  shared state as the other threads left it. One \<open>event\<close> is what another thread did
  while the worker did not hold the lock:
  \<^item> \<open>Elapsed\<close>: the timeout ran out and nothing was written;
  \<^item> \<open>Answer v\<close>: a responder thread called \<open>answer(v)\<close> (\<open>v = None\<close> is a responder
    delivering Python's \<open>None\<close>);
  \<^item> \<open>Store v\<close>: a thread assigned \<open>v\<close> to the attribute \<open>response_val\<close> directly,
    without going through \<open>answer\<close>; the attribute is public and nothing in the class
    prevents it;
  \<^item> \<open>StopCalled\<close>: another thread executed the first statement of \<open>stop\<close>,
    \<open>self.alive = False\<close>.
\<close>

datatype 'v event = Elapsed | Answer "'v option" | Store "'v option" | StopCalled

fun wait :: "'v event \<Rightarrow> ('k, 'v) StateHandler \<Rightarrow> ('k, 'v) StateHandler" where
  "wait Elapsed s = s"
| "wait (Answer v) s = answer v s"
| "wait (Store v) s = s\<lparr>response_val := v\<rparr>"
| "wait StopCalled s = s\<lparr>alive := False\<rparr>"

text \<open>
  \<open>while self.response_val is None: self.condition.wait(10)\<close>. The test reads
  \<open>response_val\<close> only. \<open>Exited s rest\<close>: the test failed in state \<open>s\<close>, the worker
  leaves the \<open>with\<close> block and releases the lock; \<open>rest\<close> are the events of the trace
  that had not happened yet. \<open>Waiting s\<close>: the worker is still inside the loop, in
  state \<open>s\<close>, after the whole trace.
\<close>

datatype ('k, 'v) looped =
    Exited "('k, 'v) StateHandler" "'v event list"
  | Waiting "('k, 'v) StateHandler"

fun await_loop :: "('k, 'v) StateHandler \<Rightarrow> 'v event list \<Rightarrow> ('k, 'v) looped" where
  "await_loop s [] = (if response_val s = None then Waiting s else Exited s [])"
| "await_loop s (e # es) =
     (if response_val s = None then await_loop (wait e s) es else Exited s (e # es))"

text \<open>
  The outcome of \<open>get_await\<close>: \<open>Returned s r rest\<close> when it returned the value \<open>r\<close> in
  state \<open>s\<close>; \<open>Blocked s\<close> when the worker is still inside the loop.

  \<open>return self.response_val\<close> stands after the \<open>with\<close> block: it reads the slot once
  more, when the lock has been released. \<open>late\<close> are the events that happen between
  the end of the loop and that read, in order; the value returned is what the slot
  holds after them.
\<close>

datatype ('k, 'v) outcome =
    Returned "('k, 'v) StateHandler" "'v option" "'v event list"
  | Blocked "('k, 'v) StateHandler"

definition resume_await ::
    "('k, 'v) StateHandler \<Rightarrow> 'v event list \<Rightarrow> 'v event list \<Rightarrow> ('k, 'v) outcome" where
  "resume_await s evs late =
     (case await_loop s evs of
        Waiting b \<Rightarrow> Blocked b
      | Exited s' rest \<Rightarrow>
          (let s'' = fold wait late s' in Returned s'' (response_val s'') rest))"

definition get_await ::
    "'k \<Rightarrow> ('k, 'v) StateHandler \<Rightarrow> 'v event list \<Rightarrow> 'v event list \<Rightarrow> ('k, 'v) outcome" where
  "get_await key s evs late =
     resume_await (s\<lparr>response_val := None, await_key := Some key\<rparr>) evs late"

text \<open>
  \<open>stop\<close>: clear the flag, join the worker thread, then reset \<open>thread\<close> and
  \<open>started_at\<close>. \<open>Thread.join()\<close> returns when the thread has ended and not before. The
  argument \<open>worker\<close> is the rest of the worker thread's run from the state in which the
  flag has just been cleared: \<open>Some w\<close> when the thread ends, leaving the shared state
  \<open>w\<close>, and \<open>None\<close> when it never ends. With no thread handle, \<open>self.thread.join()\<close>
  raises \<open>AttributeError\<close>.
\<close>

datatype ('k, 'v) stopped =
    StopReturned "('k, 'v) StateHandler"
  | StopJoining "('k, 'v) StateHandler"
  | StopRaised exn "('k, 'v) StateHandler"

definition stop ::
    "(('k, 'v) StateHandler \<Rightarrow> ('k, 'v) StateHandler option) \<Rightarrow> ('k, 'v) StateHandler
       \<Rightarrow> ('k, 'v) stopped" where
  "stop worker s =
     (let s1 = s\<lparr>alive := False\<rparr> in
      case thread s1 of
        None \<Rightarrow> StopRaised (AttributeError ''join'') s1
      | Some t \<Rightarrow>
          (case worker s1 of
             None \<Rightarrow> StopJoining s1
           | Some w \<Rightarrow> StopReturned (w\<lparr>thread := None, started_at := 0\<rparr>)))"

text \<open>
  A worker thread that is parked in the loop of \<open>get_await\<close> when the flag is cleared:
  it goes on through the loop on the events \<open>evs\<close> and returns after the events
  \<open>late\<close>; once \<open>get_await\<close> has returned, \<open>after\<close> is the remainder of the thread's
  run (the rest of the task and the test of \<open>while self.alive\<close> in \<open>run\<close>).
\<close>

definition parked_worker ::
    "'v event list \<Rightarrow> 'v event list
       \<Rightarrow> (('k, 'v) StateHandler \<Rightarrow> 'v option \<Rightarrow> 'v event list \<Rightarrow> ('k, 'v) StateHandler option)
       \<Rightarrow> ('k, 'v) StateHandler \<Rightarrow> ('k, 'v) StateHandler option" where
  "parked_worker evs late after s =
     (case resume_await s evs late of
        Blocked b \<Rightarrow> None
      | Returned s' r rest \<Rightarrow> after s' r rest)"

text \<open>
  Three kinds of events: \<open>fills\<close>, one that offers a value other than \<open>None\<close> for the
  answer slot; \<open>writes\<close>, one that may write the answer slot at all; \<open>direct\<close>, an
  assignment that does not go through \<open>answer\<close>.
\<close>

fun fills :: "'v event \<Rightarrow> bool" where
  "fills (Answer (Some v)) = True"
| "fills (Store (Some v)) = True"
| "fills e = False"

fun writes :: "'v event \<Rightarrow> bool" where
  "writes (Answer v) = True"
| "writes (Store v) = True"
| "writes e = False"

fun direct :: "'v event \<Rightarrow> bool" where
  "direct (Store v) = True"
| "direct e = False"

section \<open>\<open>_submit.py\<close>: strings\<close>

text \<open>
  Text is a list of characters. Files hold text as \<open>io.open\<close> hands it over in text
  mode, so a line ends with the single character \<open>LF\<close>.
\<close>

definition LF :: char where
  "LF = CHR 0x0A"

definition NL :: string where
  "NL = [LF]"

text \<open>\<open>sep.join(xs)\<close>.\<close>

fun join :: "string \<Rightarrow> string list \<Rightarrow> string" where
  "join sep [] = []"
| "join sep [x] = x"
| "join sep (x # y # ys) = x @ sep @ join sep (y # ys)"

text \<open>\<open>s.replace(' ', '_')\<close>.\<close>

definition replace_space :: "string \<Rightarrow> string" where
  "replace_space s = map (\<lambda>c. if c = CHR '' '' then CHR ''_'' else c) s"

text \<open>
  \<open>str.isspace\<close> on the ASCII range: tab, line feed, vertical tab, form feed, carriage
  return, the four separators \<open>0x1C\<close> to \<open>0x1F\<close>, and the space.
\<close>

definition isspace :: "char \<Rightarrow> bool" where
  "isspace c = (c \<in> set [CHR 0x09, CHR 0x0A, CHR 0x0B, CHR 0x0C, CHR 0x0D,
                          CHR 0x1C, CHR 0x1D, CHR 0x1E, CHR 0x1F, CHR 0x20])"

definition strip :: "string \<Rightarrow> string" where
  "strip s = rev (dropWhile isspace (rev (dropWhile isspace s)))"

text \<open>
  \<open>fobj.readline()\<close>: the text up to and including the first line feed, and what is
  left of the file after it.
\<close>

fun readline :: "string \<Rightarrow> string \<times> string" where
  "readline [] = ([], [])"
| "readline (c # cs) =
     (if c = LF then ([c], cs) else (case readline cs of (l, r) \<Rightarrow> (c # l, r)))"

text \<open>The decimal text of a number, as an f-string prints it.\<close>

fun str_nat :: "nat \<Rightarrow> string" where
  "str_nat n =
     (if n < 10 then [char_of (48 + n)]
      else str_nat (n div 10) @ [char_of (48 + n mod 10)])"

section \<open>\<open>_submit.py\<close>: data and collaborators\<close>

text \<open>
  A saved fix: the dictionary with the keys \<open>reponame\<close>, \<open>repodir\<close>, \<open>add_word\<close>,
  \<open>del_word\<close> and \<open>file_paths\<close>. All five keys are present, so no lookup raises
  \<open>KeyError\<close>.
\<close>

record reposave =
  reponame :: string
  repodir :: string
  add_word :: string
  del_word :: string
  file_paths :: "string list"

text \<open>
  A task dictionary as handed to \<open>context.controller.add\<close>. \<open>cleanup\<close> tasks carry a
  priority and no batch; the terminal tasks carry the batch and no priority.
\<close>

record task =
  name :: string
  interactive :: bool
  priority :: "nat option"
  task_reponame :: string
  repository_saves_multi :: "reposave list option"

text \<open>The calls made to the collaborators outside the process, in the order made.\<close>

datatype call =
    Git string "string list"
  | CreatePr string string string string string

text \<open>
  Everything the submission code reads and writes outside its own local variables:
  the JSON store, the task queue of the controller (in the order of the \<open>add\<close> calls),
  the files of the working copies (a file is named by its directory and its name
  inside it), the directories that exist, the log of outside calls, and the messages
  sent to the operator.
\<close>

record world =
  store :: "string \<rightharpoonup> reposave list"
  queue :: "task list"
  files :: "string \<times> string \<rightharpoonup> string"
  dirs :: "string set"
  calls :: "call list"
  sent :: "string list"

text \<open>
  The collaborators are parameters. The outcome of a \<open>git\<close> command or of the
  hosting API may depend on every call made before it. \<open>git_out log cwd args\<close> is the
  standard output of \<open>git args\<close> run in \<open>cwd\<close>, or the exception \<open>plumbum\<close> raises;
  \<open>create_pr_out\<close> is the number and URL of the new pull request, or the exception;
  \<open>user_login\<close> is \<open>get_api().get_user().login\<close>; \<open>display_and_check_files\<close> is the
  function of that name in \<open>_summary\<close>; \<open>confirm\<close> is the operator's reply to
  \<open>context.interaction.get_confirmation\<close>.
\<close>

record collab =
  git_out :: "call list \<Rightarrow> string \<Rightarrow> string list \<Rightarrow> exn + string"
  create_pr_out ::
    "call list \<Rightarrow> string \<Rightarrow> string \<Rightarrow> string \<Rightarrow> string \<Rightarrow> string \<Rightarrow> exn + nat \<times> string"
  user_login :: "exn + string"
  display_and_check_files :: "string \<times> string \<Rightarrow> bool"
  confirm :: "string \<Rightarrow> bool"

text \<open>
  A statement that may raise and may change the world: it returns the exception or
  the value, and the world as it is then. \<open>then_do\<close> runs a second statement after a
  first that did not raise.
\<close>

type_synonym 'a stmt = "world \<Rightarrow> (exn + 'a) \<times> world"

definition then_do :: "'a stmt \<Rightarrow> ('a \<Rightarrow> 'b stmt) \<Rightarrow> 'b stmt" where
  "then_do m f w = (case m w of (Inl e, w') \<Rightarrow> (Inl e, w') | (Inr a, w') \<Rightarrow> f a w')"

definition MULTI_SAVE_KEY :: string where
  "MULTI_SAVE_KEY = ''repository_saves_multi''"

definition ALWAYS_BATCH_MODE :: bool where
  "ALWAYS_BATCH_MODE = True"

definition ALWAYS_ISSUE_AND_BRANCH :: bool where
  "ALWAYS_ISSUE_AND_BRANCH = True"

definition ALWAYS_PLAIN_PR :: bool where
  "ALWAYS_PLAIN_PR = True"

definition get_json_value :: "string \<Rightarrow> reposave list \<Rightarrow> world \<Rightarrow> reposave list" where
  \<comment> \<open>Modelled from the spec: \<open>_storage.get_json_value\<close>, which is not among the source
     files; \<open>get(key, default) -> value\<close>.\<close>
  "get_json_value key deflt w = (case store w key of None \<Rightarrow> deflt | Some v \<Rightarrow> v)"

definition set_json_value :: "string \<Rightarrow> reposave list \<Rightarrow> world \<Rightarrow> world" where
  \<comment> \<open>Modelled from the spec: \<open>_storage.set_json_value\<close>, which is not among the source
     files; \<open>set(key, value)\<close>.\<close>
  "set_json_value key v w = w\<lparr>store := (store w)(key \<mapsto> v)\<rparr>"

definition controller_add :: "task \<Rightarrow> world \<Rightarrow> world" where
  \<comment> \<open>Modelled from the spec: \<open>context.controller.add\<close> of \<open>_multiworker\<close>, which is not
     among the source files; \<open>enqueue(task)\<close> inserts the task into the queue. The
     queue keeps the order of insertion; the order of execution is not modelled.\<close>
  "controller_add t w = w\<lparr>queue := queue w @ [t]\<rparr>"

definition git :: "collab \<Rightarrow> string \<Rightarrow> string list \<Rightarrow> string stmt" where
  "git X cwd args w = (git_out X (calls w) cwd args, w\<lparr>calls := calls w @ [Git cwd args]\<rparr>)"

definition create_pr ::
    "collab \<Rightarrow> string \<Rightarrow> string \<Rightarrow> string \<Rightarrow> string \<Rightarrow> string \<Rightarrow> (nat \<times> string) stmt" where
  \<comment> \<open>Modelled from the spec: \<open>_github.create_pr\<close>, which is not among the source files;
     \<open>createPullRequest(repo, title, body, fromBranch, toBranch) -> {number, url}\<close>, a
     call that may fail.\<close>
  "create_pr X rn title body from_branch to_branch w =
     (create_pr_out X (calls w) rn title body from_branch to_branch,
      w\<lparr>calls := calls w @ [CreatePr rn title body from_branch to_branch]\<rparr>)"

section \<open>\<open>_submit.py\<close>: commit messages\<close>

text \<open>
  \<open>get_note\<close>. With no branch URL the note is the header alone; otherwise the login of
  the API user is fetched, which may fail.
\<close>

definition get_note :: "collab \<Rightarrow> string \<Rightarrow> string option \<Rightarrow> exn + string" where
  "get_note X kind pr_url =
     (let header = ''Semi-automated '' @ kind @ '' generated by'' @ NL
                   @ ''https://github.com/timgates42/meticulous''
                   @ ''/blob/master/docs/NOTE.md''
      in case pr_url of
           None \<Rightarrow> Inr header
         | Some url \<Rightarrow>
             (case user_login X of
                Inl e \<Rightarrow> Inl e
              | Inr user_org \<Rightarrow>
                  Inr (header @ NL @ NL
                    @ ''To avoid wasting CI processing resources a branch with the fix has been'' @ NL
                    @ ''prepared but a pull request has not yet been created. A pull request fixing'' @ NL
                    @ ''the issue can be prepared from the link below, feel free to create it or'' @ NL
                    @ ''request @'' @ user_org @ '' create the PR.'' @ NL @ NL
                    @ url @ NL @ NL
                    @ ''Thanks.'' @ NL)))"

text \<open>
  The text that \<open>make_a_commit\<close> prints into \<open>__commit__.txt\<close>: the f-string, and the
  line feed that \<open>print\<close> adds.
\<close>

definition commit_text :: "reposave \<Rightarrow> string" where
  "commit_text r =
     ''docs: fix simple typo, '' @ del_word r @ '' -> '' @ add_word r @ NL
     @ NL
     @ ''There is a small typo in '' @ join '', '' (file_paths r) @ ''.'' @ NL
     @ NL
     @ ''Should read `'' @ add_word r @ ''` rather than `'' @ del_word r @ ''`.'' @ NL
     @ NL"

text \<open>
  \<open>io.open(path, "w")\<close> creates or truncates the file; it raises \<open>OSError\<close> when the
  directory does not exist.
\<close>

definition write_file :: "string \<times> string \<Rightarrow> string \<Rightarrow> unit stmt" where
  "write_file path content w =
     (if fst path \<in> dirs w then (Inr (), w\<lparr>files := (files w)(path \<mapsto> content)\<rparr>)
      else (Inl OSError, w))"

definition make_a_commit :: "string \<Rightarrow> reposave \<Rightarrow> bool \<Rightarrow> unit stmt" where
  "make_a_commit rn r is_full =
     write_file (repodir r, ''__commit__.txt'') (commit_text r)"

text \<open>
  \<open>make_a_commit_multi\<close>. An empty batch returns at once, a batch of one goes to
  \<open>make_a_commit\<close>. For a longer batch the function first collects the distinct file
  paths of all records, \<open>list(set(sum(..., [])))\<close>, and then calls
  \<open>file_paths.sorted()\<close>: a Python list has no method \<open>sorted\<close>, so the call raises
  \<open>AttributeError\<close>, and nothing after it runs (the lines after it read the names
  \<open>reposave\<close> and \<open>repo_save\<close>, which the function never assigns).
\<close>

definition make_a_commit_multi :: "string \<Rightarrow> reposave list \<Rightarrow> bool \<Rightarrow> unit stmt" where
  "make_a_commit_multi rn reposaves is_full w =
     (case reposaves of
        [] \<Rightarrow> (Inr (), w)
      | [r] \<Rightarrow> make_a_commit rn r is_full w
      | _ \<Rightarrow>
          (let paths = remdups (concat (map file_paths reposaves))
           in (Inl (AttributeError ''sorted''), w)))"

section \<open>\<open>_submit.py\<close>: commit, push and pull request\<close>

text \<open>
  \<open>load_commit_like_file\<close>: the first line stripped is the title, the second line
  must be blank, the rest is the body. A missing file raises \<open>OSError\<close>.
\<close>

definition load_commit_like_file :: "string \<times> string \<Rightarrow> world \<Rightarrow> exn + string \<times> string" where
  "load_commit_like_file path w =
     (case files w path of
        None \<Rightarrow> Inl OSError
      | Some content \<Rightarrow>
          (case readline content of
             (l1, r1) \<Rightarrow>
               (case readline r1 of
                  (l2, body) \<Rightarrow>
                    if strip l2 \<noteq> []
                    then Inl (PlainException ''Needs to be a blank second line'')
                    else Inr (strip l1, body))))"

text \<open>
  \<open>push_commit_multi\<close>: inside the working copy (\<open>local.cwd\<close> raises \<open>OSError\<close> when it
  does not exist) read the current branch, commit with the message file, and push the
  branch to the fix branch.
\<close>

definition push_commit_multi :: "collab \<Rightarrow> string \<Rightarrow> string \<Rightarrow> string stmt" where
  "push_commit_multi X dir branch_name w =
     (if dir \<notin> dirs w then (Inl OSError, w)
      else
        then_do (git X dir [''symbolic-ref'', ''--short'', ''HEAD'']) (\<lambda>out.
        let to_branch = strip out in
        then_do (git X dir [''commit'', ''-F'', ''__commit__.txt'']) (\<lambda>_.
        then_do (git X dir [''push'', ''origin'', to_branch @ '':'' @ branch_name]) (\<lambda>_ w'.
        (Inr to_branch, w')))) w)"

text \<open>
  \<open>non_interactive_prepare_commit_multi\<close>: the two \<open>ValueError\<close>s come first, before
  the message file is read and before any command runs.
\<close>

definition non_interactive_prepare_commit_multi ::
    "collab \<Rightarrow> reposave list \<Rightarrow> (string \<times> string \<times> string \<times> string) stmt" where
  "non_interactive_prepare_commit_multi X reposaves w =
     (case reposaves of
        [] \<Rightarrow> (Inl (ValueError ''No fixes to prepare''), w)
      | r # _ \<Rightarrow>
          if list_ex (\<lambda>check. repodir r \<noteq> repodir check) reposaves
          then (Inl (ValueError ''Mismatch in repositories preparing commit''), w)
          else
            (case load_commit_like_file (repodir r, ''__commit__.txt'') w of
               Inl e \<Rightarrow> (Inl e, w)
             | Inr (title, body) \<Rightarrow>
                 (let branch_name =
                        (if length reposaves = 1
                         then ''bugfix_typo_'' @ replace_space (add_word r)
                         else ''bugfix_typos'')
                  in then_do (push_commit_multi X (repodir r) branch_name)
                       (\<lambda>to_branch w'. (Inr (title, body, branch_name, to_branch), w')) w)))"

text \<open>
  The body of the \<open>try\<close> block of \<open>non_interactive_submit_commit_multi\<close>, and the three
  \<open>except\<close> clauses around it. Any other exception passes through.
\<close>

definition submit_commit_try :: "collab \<Rightarrow> string \<Rightarrow> reposave list \<Rightarrow> string stmt" where
  "submit_commit_try X rn reposaves =
     then_do (non_interactive_prepare_commit_multi X reposaves)
       (\<lambda>(title, body, from_branch, to_branch) w1.
          case get_note X ''pull request'' None of
            Inl e \<Rightarrow> (Inl e, w1)
          | Inr note \<Rightarrow>
              then_do (create_pr X rn title (body @ NL @ note) from_branch to_branch)
                (\<lambda>(number, html_url) w2.
                   (Inr (''Created PR #'' @ str_nat number @ '' view at '' @ html_url), w2))
                w1)"

definition non_interactive_submit_commit_multi ::
    "collab \<Rightarrow> string \<Rightarrow> reposave list \<Rightarrow> string stmt" where
  "non_interactive_submit_commit_multi X rn reposaves w =
     (case submit_commit_try X rn reposaves w of
        (Inl (ValueError m), w') \<Rightarrow> (Inr (''Failed to process '' @ rn @ ''.''), w')
      | (Inl ProcessExecutionError, w') \<Rightarrow> (Inr (''Failed to commit for '' @ rn @ ''.''), w')
      | (Inl GithubException, w') \<Rightarrow> (Inr (''Failed to create pr for '' @ rn @ ''.''), w')
      | other \<Rightarrow> other)"

text \<open>\<open>amend_commit\<close>: commit again with \<open>--amend\<close>, then push with \<open>-f\<close>.\<close>

definition amend_commit :: "collab \<Rightarrow> reposave \<Rightarrow> string \<Rightarrow> string \<Rightarrow> unit stmt" where
  "amend_commit X r from_branch to_branch w =
     (if repodir r \<notin> dirs w then (Inl OSError, w)
      else
        then_do (git X (repodir r) [''commit'', ''-F'', ''__commit__.txt'', ''--amend'']) (\<lambda>_.
        then_do (git X (repodir r) [''push'', ''origin'', ''-f'', to_branch @ '':'' @ from_branch])
          (\<lambda>_ w'. (Inr (), w'))) w)"

section \<open>\<open>_submit.py\<close>: the three submission paths\<close>

definition plain_pr_for :: "collab \<Rightarrow> string \<Rightarrow> reposave list \<Rightarrow> unit stmt" where
  "plain_pr_for X rn reposaves =
     then_do (make_a_commit_multi rn reposaves False) (\<lambda>_.
     then_do (non_interactive_submit_commit_multi X rn reposaves) (\<lambda>_ w. (Inr (), w)))"

text \<open>
  \<open>full_pr_for\<close> opens with a call of \<open>make_issue_multi\<close>. The module neither defines
  nor imports that name, so the call raises \<open>NameError\<close>.
\<close>

definition full_pr_for :: "collab \<Rightarrow> string \<Rightarrow> reposave list \<Rightarrow> unit stmt" where
  "full_pr_for X rn reposaves w = (Inl (NameError ''make_issue_multi''), w)"

text \<open>
  \<open>issue_and_branch_for\<close> assigns \<open>no_issues\<close> and then evaluates
  \<open>reposave["repodir"]\<close>. Its parameters are \<open>reponame\<close> and \<open>repository_saves_multi\<close>;
  \<open>reposave\<close> is neither a parameter, nor a local, nor a name of the module, so the
  second statement raises \<open>NameError\<close> on every call. The test for
  \<open>__no_issues__.txt\<close>, the commit, the push, the issue and \<open>amend_commit\<close> all come
  after that statement and are never reached.
\<close>

definition issue_and_branch_for :: "collab \<Rightarrow> string \<Rightarrow> reposave list \<Rightarrow> unit stmt" where
  "issue_and_branch_for X rn reposaves w = (Inl (NameError ''reposave''), w)"

section \<open>\<open>_submit.py\<close>: task handlers\<close>

definition add_cleanup :: "string \<Rightarrow> unit stmt" where
  "add_cleanup rn w =
     (Inr (), controller_add \<lparr>name = ''cleanup'', interactive = True, priority = Some 20,
                              task_reponame = rn, repository_saves_multi = None\<rparr> w)"

definition check_if_plain_pr :: "collab \<Rightarrow> reposave \<Rightarrow> bool" where
  "check_if_plain_pr X r =
     (let suggest_issue = False;
          suggest_issue = (if display_and_check_files X (repodir r, ''.github/ISSUE_TEMPLATE'')
                           then True else suggest_issue);
          suggest_issue = (if display_and_check_files X (repodir r, ''.github/pull_request_template.md'')
                           then True else suggest_issue);
          suggest_issue = (if display_and_check_files X (repodir r, ''CONTRIBUTING.md'')
                           then True else suggest_issue)
      in if \<not> suggest_issue then True else False)"

text \<open>
  The handler of the \<open>submit\<close> task; \<open>rn\<close> is \<open>context.taskjson["reponame"]\<close>. It picks
  the records of the repository out of the store, chooses the name of the next task,
  enqueues it with the records as payload, and then stores the empty list under the
  key.
\<close>

definition submit :: "collab \<Rightarrow> string \<Rightarrow> unit stmt" where
  "submit X rn w =
     (let orig_repository_saves_multi = get_json_value MULTI_SAVE_KEY [] w;
          saves = filter (\<lambda>r. reponame r = rn) orig_repository_saves_multi;
          (submit_plain, w1) =
            (case saves of
               [r] \<Rightarrow>
                 if \<not> ALWAYS_PLAIN_PR then
                   (let suggest_plain = check_if_plain_pr X r;
                        w' = w\<lparr>sent := sent w @
                               [''Fix in '' @ rn @ '': '' @ del_word r @ '' -> '' @ add_word r
                                @ '' over '' @ join '', '' (file_paths r)]\<rparr>
                    in if suggest_plain
                       then (confirm X ''Analysis suggests plain pr, agree?'', w')
                       else (confirm X ''Complex repo submit plain pr anyway?'', w'))
                 else (True, w)
             | _ \<Rightarrow> (False, w));
          w2 = controller_add
                 \<lparr>name = (if ALWAYS_ISSUE_AND_BRANCH then ''issue_and_branch''
                          else if submit_plain then ''plain_pr'' else ''full_pr''),
                  interactive = False, priority = None, task_reponame = rn,
                  repository_saves_multi = Some saves\<rparr> w1
      in (Inr (), set_json_value MULTI_SAVE_KEY [] w2))"

text \<open>
  The handlers of the terminal tasks; \<open>rn\<close> and \<open>reposaves\<close> are the task's
  \<open>reponame\<close> and \<open>repository_saves_multi\<close>. \<open>add_cleanup\<close> is the statement after the
  submission call, so it runs when that call has returned and not when it raised.
\<close>

definition plain_pr :: "collab \<Rightarrow> string \<Rightarrow> reposave list \<Rightarrow> unit stmt" where
  "plain_pr X rn reposaves = then_do (plain_pr_for X rn reposaves) (\<lambda>_. add_cleanup rn)"

definition full_pr :: "collab \<Rightarrow> string \<Rightarrow> reposave list \<Rightarrow> unit stmt" where
  "full_pr X rn reposaves = then_do (full_pr_for X rn reposaves) (\<lambda>_. add_cleanup rn)"

definition issue_and_branch :: "collab \<Rightarrow> string \<Rightarrow> reposave list \<Rightarrow> unit stmt" where
  "issue_and_branch X rn reposaves =
     then_do (issue_and_branch_for X rn reposaves) (\<lambda>_. add_cleanup rn)"

section \<open>Sample inputs\<close>

text \<open>
  Saved fixes for a repository \<open>R\<close> checked out in \<open>/work/R\<close>, and one for another
  repository \<open>Q\<close>.
\<close>

definition fix_recieve :: reposave where
  "fix_recieve = \<lparr>reponame = ''R'', repodir = ''/work/R'', add_word = ''receive'',
                   del_word = ''recieve'', file_paths = [''a.md'']\<rparr>"

definition fix_teh :: reposave where
  "fix_teh = \<lparr>reponame = ''R'', repodir = ''/work/R'', add_word = ''the'',
               del_word = ''teh'', file_paths = [''README.md'']\<rparr>"

definition fix_wierd :: reposave where
  "fix_wierd = \<lparr>reponame = ''R'', repodir = ''/work/R'', add_word = ''weird'',
                 del_word = ''wierd'', file_paths = [''docs/x.md'']\<rparr>"

definition fix_other :: reposave where
  "fix_other = \<lparr>reponame = ''Q'', repodir = ''/work/Q'', add_word = ''separate'',
                 del_word = ''seperate'', file_paths = [''b.md'']\<rparr>"

text \<open>
  A world with both working copies, nothing stored, nothing queued and no file
  written yet.
\<close>

definition world0 :: world where
  "world0 = \<lparr>store = Map.empty, queue = [], files = Map.empty,
              dirs = {''/work/R'', ''/work/Q''}, calls = [], sent = []\<rparr>"

text \<open>The same world once the commit message of \<open>fix_recieve\<close> has been written.\<close>

definition world1 :: world where
  "world1 = world0\<lparr>files := [(''/work/R'', ''__commit__.txt'') \<mapsto> commit_text fix_recieve]\<rparr>"

text \<open>
  Collaborators: one for which every command and call succeeds, one for which every
  \<open>git\<close> command fails, one for which \<open>git commit\<close> fails, one for which
  \<open>git push\<close> fails, and one for which the hosting API refuses the pull request.
\<close>

definition all_ok :: collab where
  "all_ok = \<lparr>git_out = (\<lambda>log cwd args. Inr (''master'' @ NL)),
              create_pr_out = (\<lambda>log rn title body from_branch to_branch.
                                 Inr (7, ''https://github.com/o/R/pull/7'')),
              user_login = Inr ''operator'',
              display_and_check_files = (\<lambda>path. False),
              confirm = (\<lambda>message. True)\<rparr>"

definition git_fails :: collab where
  "git_fails = all_ok\<lparr>git_out := (\<lambda>log cwd args. Inl ProcessExecutionError)\<rparr>"

definition commit_fails :: collab where
  "commit_fails = all_ok\<lparr>git_out := (\<lambda>log cwd args.
                   if take 1 args = [''commit''] then Inl ProcessExecutionError
                   else Inr (''master'' @ NL))\<rparr>"

definition push_fails :: collab where
  "push_fails = all_ok\<lparr>git_out := (\<lambda>log cwd args.
                   if take 1 args = [''push''] then Inl ProcessExecutionError
                   else Inr (''master'' @ NL))\<rparr>"

definition pr_fails :: collab where
  "pr_fails = all_ok\<lparr>create_pr_out := (\<lambda>log rn title body from_branch to_branch.
                   Inl GithubException)\<rparr>"

section \<open>The wait loop of \<open>get_await\<close>\<close>

text \<open>
  An event that offers no value leaves the answer slot empty, and no event sets the
  liveness flag. An event that writes nothing leaves both slots as they are. Once the
  question slot is empty, only a direct assignment can change the answer slot.
\<close>

lemma wait_not_fills:
  "\<not> fills e \<Longrightarrow> response_val s = None \<Longrightarrow>
     response_val (wait e s) = None \<and> (alive (wait e s) \<longrightarrow> alive s)
     \<and> thread (wait e s) = thread s"
  by (cases e rule: fills.cases) (simp_all add: answer_def)

lemma wait_not_writes:
  "\<not> writes e \<Longrightarrow>
     response_val (wait e s) = response_val s \<and> await_key (wait e s) = await_key s
     \<and> (alive (wait e s) \<longrightarrow> alive s)"
  by (cases e rule: writes.cases) simp_all

lemma wait_alive: "alive (wait e s) \<Longrightarrow> alive s"
  by (cases e) (simp_all add: answer_def split: if_splits)

lemma wait_answered:
  "\<not> direct e \<Longrightarrow> await_key s = None \<Longrightarrow>
     response_val (wait e s) = response_val s \<and> await_key (wait e s) = None"
  by (cases e rule: direct.cases) (simp_all add: answer_def)

lemma fold_wait_alive: "alive (fold wait late s) \<Longrightarrow> alive s"
  by (induction late arbitrary: s) (auto dest: wait_alive)

lemma fold_wait_not_writes:
  "\<forall>e\<in>set late. \<not> writes e \<Longrightarrow>
     response_val (fold wait late s) = response_val s
     \<and> await_key (fold wait late s) = await_key s"
  by (induction late arbitrary: s) (simp_all add: wait_not_writes)

lemma fold_wait_answered:
  "\<forall>e\<in>set late. \<not> direct e \<Longrightarrow> await_key s = None \<Longrightarrow>
     response_val (fold wait late s) = response_val s \<and> await_key (fold wait late s) = None"
  by (induction late arbitrary: s) (simp_all add: wait_answered)

text \<open>
  As long as no event offers a value the loop goes on: the worker is still waiting at
  the end of the trace.
\<close>

lemma await_loop_waiting:
  "response_val s = None \<Longrightarrow> \<forall>e\<in>set evs. \<not> fills e \<Longrightarrow>
     \<exists>b. await_loop s evs = Waiting b \<and> response_val b = None \<and> (alive b \<longrightarrow> alive s)"
proof (induction evs arbitrary: s)
  case Nil
  then show ?case by simp
next
  case (Cons e es)
  from Cons.prems have nf: "\<not> fills e" and rest: "\<forall>x\<in>set es. \<not> fills x"
    by simp_all
  from wait_not_fills [OF nf Cons.prems(1)]
  have w: "response_val (wait e s) = None" "alive (wait e s) \<longrightarrow> alive s"
    by simp_all
  from Cons.IH [OF w(1) rest] obtain b where
    "await_loop (wait e s) es = Waiting b" "response_val b = None"
    "alive b \<longrightarrow> alive (wait e s)"
    by blast
  with w Cons.prems(1) show ?case by simp
qed

text \<open>
  The first value stored ends the loop, whether it is assigned directly or delivered
  through \<open>answer\<close> while the question is outstanding; \<open>answer\<close> also empties the
  question slot.
\<close>

lemma await_loop_stored:
  "response_val s = None \<Longrightarrow> \<forall>e\<in>set pre. \<not> fills e \<Longrightarrow>
     \<exists>s'. await_loop s (pre @ Store (Some v) # post) = Exited s' post
          \<and> response_val s' = Some v \<and> (alive s' \<longrightarrow> alive s)"
proof (induction pre arbitrary: s)
  case Nil
  then show ?case by (cases post) simp_all
next
  case (Cons e es)
  from Cons.prems have nf: "\<not> fills e" and rest: "\<forall>x\<in>set es. \<not> fills x"
    by simp_all
  from wait_not_fills [OF nf Cons.prems(1)]
  have w: "response_val (wait e s) = None" "alive (wait e s) \<longrightarrow> alive s"
    by simp_all
  from Cons.IH [OF w(1) rest] obtain s' where
    "await_loop (wait e s) (es @ Store (Some v) # post) = Exited s' post"
    "response_val s' = Some v" "alive s' \<longrightarrow> alive (wait e s)"
    by blast
  with w Cons.prems(1) show ?case by simp
qed

lemma await_loop_answered:
  "response_val s = None \<Longrightarrow> await_key s \<noteq> None \<Longrightarrow> \<forall>e\<in>set pre. \<not> writes e \<Longrightarrow>
     \<exists>s'. await_loop s (pre @ Answer (Some v) # post) = Exited s' post
          \<and> response_val s' = Some v \<and> await_key s' = None \<and> (alive s' \<longrightarrow> alive s)"
proof (induction pre arbitrary: s)
  case Nil
  then show ?case by (cases post) (auto simp: answer_def)
next
  case (Cons e es)
  from Cons.prems have nw: "\<not> writes e" and rest: "\<forall>x\<in>set es. \<not> writes x"
    by simp_all
  from wait_not_writes [OF nw, of s] Cons.prems(1,2)
  have w: "response_val (wait e s) = None" "await_key (wait e s) \<noteq> None"
    "alive (wait e s) \<longrightarrow> alive s"
    by simp_all
  from Cons.IH [OF w(1) w(2) rest] obtain s' where
    "await_loop (wait e s) (es @ Answer (Some v) # post) = Exited s' post"
    "response_val s' = Some v" "await_key s' = None" "alive s' \<longrightarrow> alive (wait e s)"
    by blast
  with w Cons.prems(1) show ?case by simp
qed



lemma stop_Returned:
  "stop worker s = StopReturned s' \<Longrightarrow>
     \<exists>w. worker (s\<lparr>alive := False\<rparr>) = Some w \<and> s' = w\<lparr>thread := None, started_at := 0\<rparr>"
  by (auto simp: stop_def Let_def split: option.splits)

lemma parked_worker_blocked:
  "response_val s = None \<Longrightarrow> \<forall>e\<in>set evs. \<not> fills e \<Longrightarrow>
     parked_worker evs late after s = None"
  using await_loop_waiting [of s evs] by (auto simp: parked_worker_def resume_await_def)




text \<open>
  Claim C1, as stated, fails. The worker is inside \<open>get_await\<close> when another thread
  clears \<open>alive\<close>; two wake-ups later it is still inside the loop, with the flag
  cleared and the question still pending.
\<close>

theorem stop_does_not_end_get_await_counterexample:
  "get_await (0::nat)
     \<lparr>alive = True, started_at = 1, messages = [], await_key = None,
      response_val = None, thread = Some ''webworker''\<rparr>
     [StopCalled, Elapsed, Elapsed :: bool event] []
   = Blocked \<lparr>alive = False, started_at = 1, messages = [], await_key = Some 0,
              response_val = None, thread = Some ''webworker''\<rparr>"
  by (simp add: get_await_def resume_await_def)

text \<open>
  Claim C1, amended. \<open>get_await\<close> never reads the liveness flag. After \<open>stop\<close> has
  cleared the flag, the worker stays blocked through every wake-up that brings no
  value, and it returns exactly when a value other than \<open>None\<close> is stored (assigned
  directly, or delivered through \<open>answer\<close> while the question is outstanding), with
  the flag still cleared; the value returned is the stored one unless the slot is
  written again before the return. \<open>stop\<close> joins the worker thread: as long as the
  worker is parked in the loop without an answer, \<open>stop\<close> is still in the join, and
  whenever \<open>stop\<close> returns, the worker thread has ended.
\<close>

theorem stop_waits_for_answer:
  assumes "\<forall>e\<in>set evs. \<not> fills e"
  shows "(\<exists>b. get_await key s (StopCalled # evs) late = Blocked b \<and> \<not> alive b)
       \<and> (\<exists>s' r. get_await key s (StopCalled # evs @ Store (Some v) # post) late
                    = Returned s' r post \<and> \<not> alive s'
                  \<and> ((\<forall>e\<in>set late. \<not> writes e) \<longrightarrow> r = Some v))
       \<and> ((\<forall>e\<in>set evs. \<not> writes e) \<longrightarrow>
            (\<exists>s' r. get_await key s (StopCalled # evs @ Answer (Some v) # post) late
                    = Returned s' r post \<and> \<not> alive s'
                  \<and> ((\<forall>e\<in>set late. \<not> direct e) \<longrightarrow> r = Some v)))
       \<and> (response_val s = None \<and> thread s \<noteq> None \<longrightarrow>
            stop (parked_worker evs late after) s = StopJoining (s\<lparr>alive := False\<rparr>))
       \<and> (\<forall>worker s'. stop worker s = StopReturned s' \<longrightarrow>
            (\<exists>w. worker (s\<lparr>alive := False\<rparr>) = Some w
                 \<and> s' = w\<lparr>thread := None, started_at := 0\<rparr>))"
proof -
  let ?s0 = "s\<lparr>response_val := None, await_key := Some key\<rparr>"
  let ?s1 = "wait StopCalled ?s0"
  have r1: "response_val ?s1 = None" and k1: "await_key ?s1 \<noteq> None" and a1: "\<not> alive ?s1"
    by simp_all
  from await_loop_waiting [OF r1 assms] a1
  have a: "\<exists>b. get_await key s (StopCalled # evs) late = Blocked b \<and> \<not> alive b"
    by (auto simp: get_await_def resume_await_def)
  have b: "\<exists>s' r. get_await key s (StopCalled # evs @ Store (Some v) # post) late
                    = Returned s' r post \<and> \<not> alive s'
                  \<and> ((\<forall>e\<in>set late. \<not> writes e) \<longrightarrow> r = Some v)"
  proof -
    from await_loop_stored [OF r1 assms, of v post] a1 obtain x where
      x: "await_loop ?s1 (evs @ Store (Some v) # post) = Exited x post"
      "response_val x = Some v" "\<not> alive x"
      by blast
    let ?s' = "fold wait late x"
    have g: "get_await key s (StopCalled # evs @ Store (Some v) # post) late
             = Returned ?s' (response_val ?s') post"
      using x(1) by (simp add: get_await_def resume_await_def Let_def)
    have na: "\<not> alive ?s'" using fold_wait_alive [of late x] x(3) by blast
    have "(\<forall>e\<in>set late. \<not> writes e) \<longrightarrow> response_val ?s' = Some v"
      using fold_wait_not_writes [of late x] x(2) by simp
    with g na show ?thesis by blast
  qed
  have c: "(\<forall>e\<in>set evs. \<not> writes e) \<longrightarrow>
            (\<exists>s' r. get_await key s (StopCalled # evs @ Answer (Some v) # post) late
                    = Returned s' r post \<and> \<not> alive s'
                  \<and> ((\<forall>e\<in>set late. \<not> direct e) \<longrightarrow> r = Some v))"
  proof
    assume nw: "\<forall>e\<in>set evs. \<not> writes e"
    from await_loop_answered [OF r1 k1 nw, of v post] a1 obtain x where
      x: "await_loop ?s1 (evs @ Answer (Some v) # post) = Exited x post"
      "response_val x = Some v" "await_key x = None" "\<not> alive x"
      by blast
    let ?s' = "fold wait late x"
    have g: "get_await key s (StopCalled # evs @ Answer (Some v) # post) late
             = Returned ?s' (response_val ?s') post"
      using x(1) by (simp add: get_await_def resume_await_def Let_def)
    have na: "\<not> alive ?s'" using fold_wait_alive [of late x] x(4) by blast
    have "(\<forall>e\<in>set late. \<not> direct e) \<longrightarrow> response_val ?s' = Some v"
      using fold_wait_answered [of late x] x(2,3) by simp
    with g na
    show "\<exists>s' r. get_await key s (StopCalled # evs @ Answer (Some v) # post) late
                    = Returned s' r post \<and> \<not> alive s'
                  \<and> ((\<forall>e\<in>set late. \<not> direct e) \<longrightarrow> r = Some v)"
      by blast
  qed
  have d: "response_val s = None \<and> thread s \<noteq> None \<longrightarrow>
            stop (parked_worker evs late after) s = StopJoining (s\<lparr>alive := False\<rparr>)"
  proof
    assume h: "response_val s = None \<and> thread s \<noteq> None"
    then have "response_val (s\<lparr>alive := False\<rparr>) = None" by simp
    from parked_worker_blocked [OF this assms]
    have "parked_worker evs late after (s\<lparr>alive := False\<rparr>) = None" .
    with h show "stop (parked_worker evs late after) s = StopJoining (s\<lparr>alive := False\<rparr>)"
      by (auto simp: stop_def Let_def)
  qed
  have e: "\<forall>worker s'. stop worker s = StopReturned s' \<longrightarrow>
            (\<exists>w. worker (s\<lparr>alive := False\<rparr>) = Some w
                 \<and> s' = w\<lparr>thread := None, started_at := 0\<rparr>)"
    using stop_Returned by blast
  from a b c d e show ?thesis by blast
qed

theorem stop_waits_for_answer_witness:
  "\<not> fills (Elapsed :: bool event) \<and> \<not> fills (Store None :: bool event)
   \<and> \<not> writes (Elapsed :: bool event)
   \<and> (\<exists>b. get_await (0::nat) (init\<lparr>alive := True, thread := Some ''webworker''\<rparr>)
              (StopCalled # [Elapsed, Store None :: bool event]) [] = Blocked b \<and> \<not> alive b)
   \<and> get_await (0::nat) (init\<lparr>alive := True, thread := Some ''webworker''\<rparr>)
        (StopCalled # [Elapsed] @ Store (Some True) # [Elapsed]) [Elapsed]
      = Returned (init\<lparr>await_key := Some 0, response_val := Some True,
                        thread := Some ''webworker''\<rparr>) (Some True) [Elapsed]
   \<and> get_await (0::nat) (init\<lparr>alive := True, thread := Some ''webworker''\<rparr>)
        (StopCalled # [Elapsed] @ Answer (Some True) # [Elapsed]) [Elapsed]
      = Returned (init\<lparr>response_val := Some True, thread := Some ''webworker''\<rparr>)
          (Some True) [Elapsed]
   \<and> \<not> direct (Elapsed :: bool event)
   \<and> stop (parked_worker [Elapsed, Store None :: bool event] [] (\<lambda>s r rest. Some s))
        (init\<lparr>alive := True, thread := Some ''webworker''\<rparr> :: (nat, bool) StateHandler)
      = StopJoining (init\<lparr>alive := False, thread := Some ''webworker''\<rparr>)
   \<and> stop (parked_worker [Elapsed, Store (Some True)] [] (\<lambda>s r rest. Some s))
        (init\<lparr>alive := True, thread := Some ''webworker''\<rparr> :: (nat, bool) StateHandler)
      = StopReturned (init\<lparr>response_val := Some True\<rparr>)
   \<and> parked_worker [Elapsed, Store (Some True)] [] (\<lambda>s r rest. Some s)
        (init\<lparr>alive := False, thread := Some ''webworker''\<rparr> :: (nat, bool) StateHandler)
      = Some (init\<lparr>response_val := Some True, thread := Some ''webworker''\<rparr>)"
  using stop_waits_for_answer [where evs = "[Elapsed, Store None :: bool event]"
      and key = "0::nat" and s = "init\<lparr>alive := True, thread := Some ''webworker''\<rparr>"
      and late = "[]" and after = "\<lambda>s r rest. Some s"]
    stop_waits_for_answer [where evs = "[Elapsed :: bool event]"
      and key = "0::nat" and s = "init\<lparr>alive := True, thread := Some ''webworker''\<rparr>"
      and late = "[Elapsed]" and v = True and post = "[Elapsed]"]
  by (simp add: init_def stop_def parked_worker_def get_await_def resume_await_def answer_def Let_def)



section \<open>The \<open>submit\<close> task and the store\<close>

text \<open>
  Claim C3. The claim is that \<open>submit\<close> for a repository removes the records of that
  repository from the store and leaves the records of every other repository in
  place. The handler selects the records of its own repository for the batch, but
  then stores the empty list under the key: after it has run, the store holds no
  record at all. With one record for \<open>R\<close> and one for \<open>Q\<close> stored, \<open>submit\<close> for \<open>R\<close>
  enqueues the record of \<open>R\<close> and the record of \<open>Q\<close> is gone.
\<close>

theorem submit_empties_the_store:
  "get_json_value MULTI_SAVE_KEY [] (snd (submit X rn w)) = []
   \<and> submit all_ok ''R'' (world0\<lparr>store := [MULTI_SAVE_KEY \<mapsto> [fix_recieve, fix_other]]\<rparr>)
     = (Inr (),
        world0\<lparr>store := [MULTI_SAVE_KEY \<mapsto> []],
               queue := [\<lparr>name = ''issue_and_branch'', interactive = False, priority = None,
                          task_reponame = ''R'',
                          repository_saves_multi = Some [fix_recieve]\<rparr>]\<rparr>)"
  by (simp add: submit_def get_json_value_def set_json_value_def controller_add_def Let_def
      ALWAYS_PLAIN_PR_def ALWAYS_ISSUE_AND_BRANCH_def world0_def fix_recieve_def fix_other_def
      split: list.splits prod.splits)

text \<open>
  Claim C4, as stated, fails. With no record stored for the repository, \<open>submit\<close>
  returns normally and enqueues the terminal task \<open>issue_and_branch\<close> with the empty
  batch.
\<close>

theorem submit_enqueues_empty_batch_counterexample:
  "submit all_ok ''R'' world0
   = (Inr (),
      world0\<lparr>store := [MULTI_SAVE_KEY \<mapsto> []],
             queue := [\<lparr>name = ''issue_and_branch'', interactive = False, priority = None,
                        task_reponame = ''R'', repository_saves_multi = Some []\<rparr>]\<rparr>)"
  by (simp add: submit_def get_json_value_def set_json_value_def controller_add_def Let_def
      ALWAYS_PLAIN_PR_def ALWAYS_ISSUE_AND_BRANCH_def world0_def)

text \<open>
  Claim C4, amended. \<open>submit\<close> does not inspect the batch: it always returns normally
  and enqueues \<open>issue_and_branch\<close> with the records it selected, whatever they are.
  The batch is checked later, in \<open>non_interactive_prepare_commit_multi\<close>: an empty
  batch, and a batch in which some record has another \<open>repodir\<close> than the first,
  raise \<open>ValueError\<close> there, with the world untouched (no file read, no command run).
\<close>

theorem batch_is_checked_when_preparing_the_commit:
  "fst (submit X rn w) = Inr ()
   \<and> queue (snd (submit X rn w))
       = queue w @ [\<lparr>name = ''issue_and_branch'', interactive = False, priority = None,
                      task_reponame = rn,
                      repository_saves_multi =
                        Some (filter (\<lambda>r. reponame r = rn) (get_json_value MULTI_SAVE_KEY [] w))\<rparr>]
   \<and> non_interactive_prepare_commit_multi X [] w = (Inl (ValueError ''No fixes to prepare''), w)
   \<and> (list_ex (\<lambda>check. repodir r \<noteq> repodir check) rs \<longrightarrow>
        non_interactive_prepare_commit_multi X (r # rs) w
          = (Inl (ValueError ''Mismatch in repositories preparing commit''), w))"
  by (simp add: submit_def get_json_value_def set_json_value_def controller_add_def Let_def
      ALWAYS_PLAIN_PR_def ALWAYS_ISSUE_AND_BRANCH_def non_interactive_prepare_commit_multi_def
      split: list.splits prod.splits)

theorem batch_is_checked_when_preparing_the_commit_witness:
  "list_ex (\<lambda>check. repodir fix_recieve \<noteq> repodir check) [fix_other]
   \<and> non_interactive_prepare_commit_multi all_ok [fix_recieve, fix_other] world0
       = (Inl (ValueError ''Mismatch in repositories preparing commit''), world0)"
  using batch_is_checked_when_preparing_the_commit
    [where r = fix_recieve and rs = "[fix_other]" and X = all_ok and w = world0]
  by (simp add: fix_recieve_def fix_other_def)

section \<open>Commit messages\<close>

text \<open>
  Claim C5. The claim is that a batch of more than one record gets one commit message
  that lists the file paths and the word pairs of the whole batch. For every batch of
  two or more records \<open>make_a_commit_multi\<close> raises \<open>AttributeError\<close> and writes no
  file, and so does the \<open>plain_pr\<close> handler that calls it.
\<close>

theorem make_a_commit_multi_raises_on_batches:
  "make_a_commit_multi rn (r1 # r2 # rs) is_full w = (Inl (AttributeError ''sorted''), w)
   \<and> plain_pr X rn (r1 # r2 # rs) w = (Inl (AttributeError ''sorted''), w)
   \<and> make_a_commit_multi ''R'' [fix_teh, fix_wierd] False world0
       = (Inl (AttributeError ''sorted''), world0)"
  by (simp add: make_a_commit_multi_def plain_pr_def plain_pr_for_def then_do_def)

text \<open>\<open>readline\<close> on a text whose first line feed comes after \<open>l\<close>.\<close>

lemma readline_line: "LF \<notin> set l \<Longrightarrow> readline (l @ LF # r) = (l @ [LF], r)"
  by (induction l) auto

lemma first_line_of_commit_text:
  assumes "LF \<notin> set (del_word r)" "LF \<notin> set (add_word r)"
  shows "fst (readline (commit_text r))
         = ''docs: fix simple typo, '' @ del_word r @ '' -> '' @ add_word r @ NL"
proof -
  let ?l = "''docs: fix simple typo, '' @ del_word r @ '' -> '' @ add_word r"
  have "LF \<notin> set ?l" using assms by (simp add: LF_def)
  from readline_line [OF this]
  have "\<And>rest. readline (?l @ LF # rest) = (?l @ [LF], rest)" .
  then show ?thesis by (simp add: commit_text_def NL_def)
qed

text \<open>
  Claim C9. For a batch of one record whose two words are on one line (they contain
  no line feed) and whose working copy exists, \<open>make_a_commit_multi\<close> does what
  \<open>make_a_commit\<close> does: it writes the commit message into \<open>__commit__.txt\<close>, and the
  first line of that message is \<open>docs: fix simple typo, \<close> followed by the removed
  word, \<open> -> \<close> and the added word.
\<close>

theorem single_fix_commit_first_line:
  assumes "LF \<notin> set (del_word r)" "LF \<notin> set (add_word r)" "repodir r \<in> dirs w"
  shows "make_a_commit_multi rn [r] is_full w
           = (Inr (), w\<lparr>files := (files w)((repodir r, ''__commit__.txt'') \<mapsto> commit_text r)\<rparr>)
       \<and> make_a_commit rn r is_full w = make_a_commit_multi rn [r] is_full w
       \<and> fst (readline (commit_text r))
           = ''docs: fix simple typo, '' @ del_word r @ '' -> '' @ add_word r @ NL"
  using assms first_line_of_commit_text [of r]
  by (simp add: make_a_commit_multi_def make_a_commit_def write_file_def)

theorem single_fix_commit_first_line_witness:
  "LF \<notin> set (del_word fix_recieve) \<and> LF \<notin> set (add_word fix_recieve)
   \<and> repodir fix_recieve \<in> dirs world0
   \<and> make_a_commit_multi ''R'' [fix_recieve] False world0 = (Inr (), world1)
   \<and> files world1 (''/work/R'', ''__commit__.txt'') = Some (commit_text fix_recieve)
   \<and> fst (readline (commit_text fix_recieve))
       = ''docs: fix simple typo, recieve -> receive'' @ NL"
  using single_fix_commit_first_line [of fix_recieve world0 "''R''" False]
  by (simp add: fix_recieve_def world0_def world1_def LF_def)

section \<open>The \<open>issue_and_branch\<close> path\<close>

text \<open>
  Claim C6. The claim is that \<open>issue_and_branch_for\<close> falls back to \<open>plain_pr\<close> when the
  marker file is present, and otherwise pushes a branch, files the issue and amends
  the commit. On every batch the function raises \<open>NameError\<close> at its second
  statement and leaves the world as it was: no file is looked for, nothing is
  committed or pushed, no issue is filed, and the handler enqueues nothing.
\<close>

theorem issue_and_branch_raises_name_error:
  "issue_and_branch_for X rn reposaves w = (Inl (NameError ''reposave''), w)
   \<and> issue_and_branch X rn reposaves w = (Inl (NameError ''reposave''), w)
   \<and> issue_and_branch all_ok ''R'' [fix_recieve] world0 = (Inl (NameError ''reposave''), world0)"
  by (simp add: issue_and_branch_def issue_and_branch_for_def then_do_def)

section \<open>Failures while finalizing a submission\<close>

text \<open>
  The outside calls of the \<open>try\<close> block: at most four, all different, appended to the
  log.
\<close>

lemma submit_commit_try_cases:
  "\<exists>new. calls (snd (submit_commit_try X rn rs w)) = calls w @ new \<and> distinct new \<and> length new \<le> 4"
  unfolding submit_commit_try_def non_interactive_prepare_commit_multi_def
    push_commit_multi_def git_def create_pr_def then_do_def get_note_def Let_def
  by (auto split: list.splits sum.splits prod.splits if_splits)

text \<open>The ways to single out one element of a short list.\<close>

lemma pick_1: "([a] = pre @ c # post) = (pre = [] \<and> c = a \<and> post = [])"
  by (cases pre) auto

lemma pick_2:
  "([a, b] = pre @ c # post)
   = (pre = [] \<and> c = a \<and> post = [b] \<or> pre = [a] \<and> c = b \<and> post = [])"
  by (cases pre) (auto simp: pick_1)

lemma pick_3:
  "([a, b, d] = pre @ c # post)
   = (pre = [] \<and> c = a \<and> post = [b, d] \<or> pre = [a] \<and> c = b \<and> post = [d]
      \<or> pre = [a, b] \<and> c = d \<and> post = [])"
  by (cases pre) (auto simp: pick_2)

lemma pick_last:
  "(xs @ [x] = pre @ c # post)
   = (pre = xs \<and> c = x \<and> post = [] \<or> (\<exists>post'. post = post' @ [x] \<and> xs = pre @ c # post'))"
proof (cases post rule: rev_cases)
  case Nil
  then show ?thesis by auto
next
  case (snoc post' y)
  have "(xs @ [x] = (pre @ c # post') @ [y]) = (xs = pre @ c # post' \<and> x = y)"
    by (rule append1_eq_conv)
  with snoc show ?thesis by auto
qed

lemma then_do_git_Inl:
  "git_out X (calls w) dir args = Inl e \<Longrightarrow>
     then_do (git X dir args) f w = (Inl e, w\<lparr>calls := calls w @ [Git dir args]\<rparr>)"
  by (simp add: then_do_def git_def)

lemma then_do_git_Inr:
  "git_out X (calls w) dir args = Inr out \<Longrightarrow>
     then_do (git X dir args) f w = f out (w\<lparr>calls := calls w @ [Git dir args]\<rparr>)"
  by (simp add: then_do_def git_def)

text \<open>
  \<open>push_commit_multi\<close> runs \<open>git\<close> commands only and stops at the first one that
  fails: a command of its log that failed is the last one, and its exception is the
  result.
\<close>

lemma push_commit_multi_log:
  "\<exists>new. calls (snd (push_commit_multi X dir b w)) = calls w @ new
     \<and> (\<forall>pre c post. new = pre @ c # post \<longrightarrow>
          (\<exists>d args. c = Git d args
             \<and> (\<forall>e. git_out X (calls w @ pre) d args = Inl e \<longrightarrow>
                  post = [] \<and> fst (push_commit_multi X dir b w) = Inl e)))"
proof (cases "dir \<in> dirs w")
  case False
  then have "push_commit_multi X dir b w = (Inl OSError, w)"
    by (simp add: push_commit_multi_def)
  then have "calls (snd (push_commit_multi X dir b w)) = calls w @ []" by simp
  then show ?thesis by blast
next
  case True
  let ?a1 = "[''symbolic-ref'', ''--short'', ''HEAD'']"
  let ?a2 = "[''commit'', ''-F'', ''__commit__.txt'']"
  let ?w1 = "w\<lparr>calls := calls w @ [Git dir ?a1]\<rparr>"
  let ?w2 = "?w1\<lparr>calls := calls ?w1 @ [Git dir ?a2]\<rparr>"
  show ?thesis
  proof (cases "git_out X (calls w) dir ?a1")
    case (Inl e1)
    with True have p: "push_commit_multi X dir b w = (Inl e1, ?w1)"
      by (simp add: push_commit_multi_def then_do_git_Inl)
    show ?thesis
      by (rule exI [of _ "[Git dir ?a1]"]) (use p Inl in \<open>auto simp: pick_1\<close>)
  next
    case o1: (Inr out)
    let ?a3 = "[''push'', ''origin'', strip out @ '':'' @ b]"
    let ?w3 = "?w2\<lparr>calls := calls ?w2 @ [Git dir ?a3]\<rparr>"
    show ?thesis
    proof (cases "git_out X (calls ?w1) dir ?a2")
      case (Inl e2)
      with True o1 have p: "push_commit_multi X dir b w = (Inl e2, ?w2)"
        by (simp add: push_commit_multi_def then_do_git_Inl then_do_git_Inr Let_def)
      show ?thesis
        by (rule exI [of _ "[Git dir ?a1, Git dir ?a2]"]) (use p o1 Inl in \<open>auto simp: pick_2\<close>)
    next
      case o2: (Inr out2)
      show ?thesis
      proof (cases "git_out X (calls ?w2) dir ?a3")
        case (Inl e3)
        with True o1 o2 have p: "push_commit_multi X dir b w = (Inl e3, ?w3)"
          by (simp add: push_commit_multi_def then_do_git_Inl then_do_git_Inr Let_def)
        show ?thesis
          by (rule exI [of _ "[Git dir ?a1, Git dir ?a2, Git dir ?a3]"])
            (use p o1 o2 Inl in \<open>auto simp: pick_3\<close>)
      next
        case o3: (Inr out3)
        with True o1 o2 have p: "push_commit_multi X dir b w = (Inr (strip out), ?w3)"
          by (simp add: push_commit_multi_def then_do_git_Inl then_do_git_Inr Let_def)
        show ?thesis
          by (rule exI [of _ "[Git dir ?a1, Git dir ?a2, Git dir ?a3]"])
            (use p o1 o2 o3 in \<open>auto simp: pick_3\<close>)
      qed
    qed
  qed
qed

lemma submit_commit_try_early:
  "rs = [] \<or> list_ex (\<lambda>check. repodir (hd rs) \<noteq> repodir check) rs
     \<or> (\<exists>e. load_commit_like_file (repodir (hd rs), ''__commit__.txt'') w = Inl e) \<Longrightarrow>
   snd (submit_commit_try X rn rs w) = w"
  unfolding submit_commit_try_def non_interactive_prepare_commit_multi_def then_do_def
  by (auto split: list.splits)

lemma submit_commit_try_push:
  assumes "rs \<noteq> []" "\<not> list_ex (\<lambda>check. repodir (hd rs) \<noteq> repodir check) rs"
    and "load_commit_like_file (repodir (hd rs), ''__commit__.txt'') w = Inr (title, body)"
    and "branch = (if length rs = 1 then ''bugfix_typo_'' @ replace_space (add_word (hd rs))
                   else ''bugfix_typos'')"
    and "get_note X ''pull request'' None = Inr note"
  shows "submit_commit_try X rn rs w =
     (case push_commit_multi X (repodir (hd rs)) branch w of
        (Inl e, w1) \<Rightarrow> (Inl e, w1)
      | (Inr to_branch, w1) \<Rightarrow>
          ((case create_pr_out X (calls w1) rn title (body @ NL @ note) branch to_branch of
              Inl e \<Rightarrow> Inl e
            | Inr (number, html_url) \<Rightarrow>
                Inr (''Created PR #'' @ str_nat number @ '' view at '' @ html_url)),
           w1\<lparr>calls := calls w1 @ [CreatePr rn title (body @ NL @ note) branch to_branch]\<rparr>))"
  using assms
  unfolding submit_commit_try_def non_interactive_prepare_commit_multi_def then_do_def
    create_pr_def Let_def
  by (cases rs) (auto split: sum.splits prod.splits)

lemma get_note_plain: "\<exists>note. get_note X kind None = Inr note"
  by (simp add: get_note_def Let_def)

text \<open>
  The same for the whole \<open>try\<close> block, with the pull request as the fourth call: any
  call of the log that failed is the last call, and its exception is the result.
\<close>

lemma submit_commit_try_log:
  "\<exists>new. calls (snd (submit_commit_try X rn rs w)) = calls w @ new
     \<and> (\<forall>pre c post. new = pre @ c # post \<longrightarrow>
          (\<forall>d args e. c = Git d args \<and> git_out X (calls w @ pre) d args = Inl e \<longrightarrow>
             post = [] \<and> fst (submit_commit_try X rn rs w) = Inl e)
          \<and> (\<forall>rn' t b f tb e. c = CreatePr rn' t b f tb
                \<and> create_pr_out X (calls w @ pre) rn' t b f tb = Inl e \<longrightarrow>
             post = [] \<and> fst (submit_commit_try X rn rs w) = Inl e))"
proof (cases "rs = [] \<or> list_ex (\<lambda>check. repodir (hd rs) \<noteq> repodir check) rs
     \<or> (\<exists>e. load_commit_like_file (repodir (hd rs), ''__commit__.txt'') w = Inl e)")
  case True
  from submit_commit_try_early [OF True]
  have "calls (snd (submit_commit_try X rn rs w)) = calls w @ []" by simp
  then show ?thesis by blast
next
  case False
  then obtain title body where
    ok: "rs \<noteq> []" "\<not> list_ex (\<lambda>check. repodir (hd rs) \<noteq> repodir check) rs"
      "load_commit_like_file (repodir (hd rs), ''__commit__.txt'') w = Inr (title, body)"
    by (cases "load_commit_like_file (repodir (hd rs), ''__commit__.txt'') w") auto
  obtain remark where remark: "get_note X ''pull request'' None = Inr remark"
    using get_note_plain by blast
  define branch where
    "branch = (if length rs = 1 then ''bugfix_typo_'' @ replace_space (add_word (hd rs))
               else ''bugfix_typos'')"
  note nf = submit_commit_try_push [OF ok branch_def remark, of rn]
  obtain pr w1 where p: "push_commit_multi X (repodir (hd rs)) branch w = (pr, w1)"
    by (cases "push_commit_multi X (repodir (hd rs)) branch w")
  from push_commit_multi_log [of X "repodir (hd rs)" branch w] p obtain new where
    new: "calls w1 = calls w @ new"
    and gits: "\<And>pre c post. new = pre @ c # post \<Longrightarrow>
          \<exists>d args. c = Git d args
             \<and> (\<forall>e. git_out X (calls w @ pre) d args = Inl e \<longrightarrow> post = [] \<and> pr = Inl e)"
    by auto
  show ?thesis
  proof (cases pr)
    case (Inl e1)
    with nf p have t: "submit_commit_try X rn rs w = (Inl e1, w1)" by simp
    show ?thesis
    proof (rule exI [of _ new], intro conjI allI impI)
      show "calls (snd (submit_commit_try X rn rs w)) = calls w @ new"
        using t new by simp
    next
      fix pre c post d args e
      assume "new = pre @ c # post" "c = Git d args \<and> git_out X (calls w @ pre) d args = Inl e"
      with gits [of pre c post] Inl t
      show "post = []" "fst (submit_commit_try X rn rs w) = Inl e" by auto
    next
      fix pre c post rn' ti b f tb e
      assume "new = pre @ c # post"
        "c = CreatePr rn' ti b f tb \<and> create_pr_out X (calls w @ pre) rn' ti b f tb = Inl e"
      with gits [of pre c post]
      show "post = []" "fst (submit_commit_try X rn rs w) = Inl e" by auto
    qed
  next
    case (Inr to_branch)
    let ?c = "CreatePr rn title (body @ NL @ remark) branch to_branch"
    from nf p Inr have t: "snd (submit_commit_try X rn rs w) = w1\<lparr>calls := calls w1 @ [?c]\<rparr>"
      and r: "fst (submit_commit_try X rn rs w)
              = (case create_pr_out X (calls w1) rn title (body @ NL @ remark) branch to_branch of
                   Inl e \<Rightarrow> Inl e
                 | Inr (number, html_url) \<Rightarrow>
                     Inr (''Created PR #'' @ str_nat number @ '' view at '' @ html_url))"
      by simp_all
    show ?thesis
    proof (rule exI [of _ "new @ [?c]"], intro conjI allI impI)
      show "calls (snd (submit_commit_try X rn rs w)) = calls w @ new @ [?c]"
        using t new by simp
    next
      fix pre c post d args e
      assume s: "new @ [?c] = pre @ c # post"
        and g: "c = Git d args \<and> git_out X (calls w @ pre) d args = Inl e"
      from s g obtain post' where "post = post' @ [?c]" "new = pre @ c # post'"
        by (auto simp: pick_last)
      with gits [of pre c post'] g Inr
      show "post = []" "fst (submit_commit_try X rn rs w) = Inl e" by auto
    next
      fix pre c post rn' ti b f tb e
      assume s: "new @ [?c] = pre @ c # post"
        and g: "c = CreatePr rn' ti b f tb \<and> create_pr_out X (calls w @ pre) rn' ti b f tb = Inl e"
      from s have "pre = new \<and> c = ?c \<and> post = [] \<or> (\<exists>post'. post = post' @ [?c] \<and> new = pre @ c # post')"
        by (simp add: pick_last)
      then have l: "pre = new \<and> c = ?c \<and> post = []"
        using gits g by blast
      with g new r
      show "post = []" "fst (submit_commit_try X rn rs w) = Inl e" by auto
    qed
  qed
qed

lemma non_interactive_submit_world:
  "snd (non_interactive_submit_commit_multi X rn rs w) = snd (submit_commit_try X rn rs w)"
  unfolding non_interactive_submit_commit_multi_def
  by (auto split: prod.splits sum.splits exn.splits)

lemma non_interactive_submit_caught:
  "fst (non_interactive_submit_commit_multi X rn rs w) \<noteq> Inl ProcessExecutionError
   \<and> fst (non_interactive_submit_commit_multi X rn rs w) \<noteq> Inl GithubException
   \<and> fst (non_interactive_submit_commit_multi X rn rs w) \<noteq> Inl (ValueError m)"
  unfolding non_interactive_submit_commit_multi_def
  by (auto split: prod.splits sum.splits exn.splits)

lemma non_interactive_submit_status:
  "(fst (submit_commit_try X rn rs w) = Inl ProcessExecutionError \<longrightarrow>
      fst (non_interactive_submit_commit_multi X rn rs w) = Inr (''Failed to commit for '' @ rn @ ''.''))
   \<and> (fst (submit_commit_try X rn rs w) = Inl GithubException \<longrightarrow>
      fst (non_interactive_submit_commit_multi X rn rs w) = Inr (''Failed to create pr for '' @ rn @ ''.''))"
  unfolding non_interactive_submit_commit_multi_def
  by (auto split: prod.splits sum.splits exn.splits)

text \<open>The sample submission, evaluated step by step.\<close>

lemma load_world1:
  "load_commit_like_file (''/work/R'', ''__commit__.txt'') world1
   = Inr (''docs: fix simple typo, recieve -> receive'',
          ''There is a small typo in a.md.'' @ NL @ NL
          @ ''Should read `receive` rather than `recieve`.'' @ NL @ NL)"
  by (simp add: load_commit_like_file_def world1_def world0_def commit_text_def fix_recieve_def
      NL_def LF_def strip_def isspace_def)

lemma eval_push:
  "push_commit_multi push_fails ''/work/R'' ''bugfix_typo_receive'' world1
   = (Inl ProcessExecutionError,
      world1\<lparr>calls := [Git ''/work/R'' [''symbolic-ref'', ''--short'', ''HEAD''],
                         Git ''/work/R'' [''commit'', ''-F'', ''__commit__.txt''],
                         Git ''/work/R'' [''push'', ''origin'', ''master:bugfix_typo_receive'']]\<rparr>)"
  by (simp add: push_commit_multi_def then_do_def git_def push_fails_def all_ok_def
      world1_def world0_def strip_def isspace_def NL_def LF_def Let_def)

lemma eval_prepare:
  "non_interactive_prepare_commit_multi push_fails [fix_recieve] world1
   = (Inl ProcessExecutionError,
      world1\<lparr>calls := [Git ''/work/R'' [''symbolic-ref'', ''--short'', ''HEAD''],
                         Git ''/work/R'' [''commit'', ''-F'', ''__commit__.txt''],
                         Git ''/work/R'' [''push'', ''origin'', ''master:bugfix_typo_receive'']]\<rparr>)"
proof -
  have r: "repodir fix_recieve = ''/work/R''" "add_word fix_recieve = ''receive''"
    by (simp_all add: fix_recieve_def)
  show ?thesis
    by (simp add: non_interactive_prepare_commit_multi_def r load_world1 replace_space_def
        then_do_def eval_push)
qed

lemma eval_push_fails:
  "non_interactive_submit_commit_multi push_fails ''R'' [fix_recieve] world1
   = (Inr ''Failed to commit for R.'',
      world1\<lparr>calls := [Git ''/work/R'' [''symbolic-ref'', ''--short'', ''HEAD''],
                         Git ''/work/R'' [''commit'', ''-F'', ''__commit__.txt''],
                         Git ''/work/R'' [''push'', ''origin'', ''master:bugfix_typo_receive'']]\<rparr>)"
  by (simp add: non_interactive_submit_commit_multi_def submit_commit_try_def then_do_def
      eval_prepare)

lemma eval_commit:
  "push_commit_multi commit_fails ''/work/R'' ''bugfix_typo_receive'' world1
   = (Inl ProcessExecutionError,
      world1\<lparr>calls := [Git ''/work/R'' [''symbolic-ref'', ''--short'', ''HEAD''],
                         Git ''/work/R'' [''commit'', ''-F'', ''__commit__.txt'']]\<rparr>)"
  by (simp add: push_commit_multi_def then_do_def git_def commit_fails_def all_ok_def
      world1_def world0_def strip_def isspace_def NL_def LF_def Let_def)

lemma eval_commit_fails:
  "non_interactive_submit_commit_multi commit_fails ''R'' [fix_recieve] world1
   = (Inr ''Failed to commit for R.'',
      world1\<lparr>calls := [Git ''/work/R'' [''symbolic-ref'', ''--short'', ''HEAD''],
                         Git ''/work/R'' [''commit'', ''-F'', ''__commit__.txt'']]\<rparr>)"
proof -
  have r: "repodir fix_recieve = ''/work/R''" "add_word fix_recieve = ''receive''"
    by (simp_all add: fix_recieve_def)
  have "non_interactive_prepare_commit_multi commit_fails [fix_recieve] world1
   = (Inl ProcessExecutionError,
      world1\<lparr>calls := [Git ''/work/R'' [''symbolic-ref'', ''--short'', ''HEAD''],
                         Git ''/work/R'' [''commit'', ''-F'', ''__commit__.txt'']]\<rparr>)"
    by (simp add: non_interactive_prepare_commit_multi_def r load_world1 replace_space_def
        then_do_def eval_commit)
  then show ?thesis
    by (simp add: non_interactive_submit_commit_multi_def submit_commit_try_def then_do_def)
qed

lemma eval_push_ok:
  "git_out X = (\<lambda>log cwd args. Inr (''master'' @ NL)) \<Longrightarrow>
   push_commit_multi X ''/work/R'' ''bugfix_typo_receive'' world1
   = (Inr ''master'',
      world1\<lparr>calls := [Git ''/work/R'' [''symbolic-ref'', ''--short'', ''HEAD''],
                         Git ''/work/R'' [''commit'', ''-F'', ''__commit__.txt''],
                         Git ''/work/R'' [''push'', ''origin'', ''master:bugfix_typo_receive'']]\<rparr>)"
  by (simp add: push_commit_multi_def then_do_def git_def
      world1_def world0_def strip_def isspace_def NL_def LF_def Let_def)

lemma eval_prepare_ok:
  assumes "git_out X = (\<lambda>log cwd args. Inr (''master'' @ NL))"
  shows "non_interactive_prepare_commit_multi X [fix_recieve] world1
   = (Inr (''docs: fix simple typo, recieve -> receive'',
           ''There is a small typo in a.md.'' @ NL @ NL
           @ ''Should read `receive` rather than `recieve`.'' @ NL @ NL,
           ''bugfix_typo_receive'', ''master''),
      world1\<lparr>calls := [Git ''/work/R'' [''symbolic-ref'', ''--short'', ''HEAD''],
                         Git ''/work/R'' [''commit'', ''-F'', ''__commit__.txt''],
                         Git ''/work/R'' [''push'', ''origin'', ''master:bugfix_typo_receive'']]\<rparr>)"
proof -
  have r: "repodir fix_recieve = ''/work/R''" "add_word fix_recieve = ''receive''"
    by (simp_all add: fix_recieve_def)
  show ?thesis
    by (simp add: non_interactive_prepare_commit_multi_def r load_world1 replace_space_def
        then_do_def eval_push_ok [OF assms] Let_def)
qed

lemma eval_pr_fails:
  "non_interactive_submit_commit_multi pr_fails ''R'' [fix_recieve] world1
   = (Inr ''Failed to create pr for R.'',
      world1\<lparr>calls := [Git ''/work/R'' [''symbolic-ref'', ''--short'', ''HEAD''],
                         Git ''/work/R'' [''commit'', ''-F'', ''__commit__.txt''],
                         Git ''/work/R'' [''push'', ''origin'', ''master:bugfix_typo_receive''],
                         CreatePr ''R'' ''docs: fix simple typo, recieve -> receive''
                           (''There is a small typo in a.md.'' @ NL @ NL
                            @ ''Should read `receive` rather than `recieve`.'' @ NL @ NL
                            @ NL @ ''Semi-automated pull request generated by'' @ NL
                            @ ''https://github.com/timgates42/meticulous/blob/master/docs/NOTE.md'')
                           ''bugfix_typo_receive'' ''master'']\<rparr>)"
proof -
  have g: "git_out pr_fails = (\<lambda>log cwd args. Inr (''master'' @ NL))"
    by (simp add: pr_fails_def all_ok_def)
  have c: "create_pr_out pr_fails = (\<lambda>log rn title body from_branch to_branch. Inl GithubException)"
    by (simp add: pr_fails_def all_ok_def)
  show ?thesis
    by (simp add: non_interactive_submit_commit_multi_def submit_commit_try_def then_do_def
        eval_prepare_ok [OF g] get_note_def create_pr_def c)
qed

lemma plain_pr_unfold:
  "plain_pr X rn rs w =
     (case make_a_commit_multi rn rs False w of
        (Inl e, w1) \<Rightarrow> (Inl e, w1)
      | (Inr u, w1) \<Rightarrow>
          (case non_interactive_submit_commit_multi X rn rs w1 of
             (Inl e, w2) \<Rightarrow> (Inl e, w2)
           | (Inr status, w2) \<Rightarrow>
               (Inr (), controller_add \<lparr>name = ''cleanup'', interactive = True,
                          priority = Some 20, task_reponame = rn,
                          repository_saves_multi = None\<rparr> w2)))"
  by (simp add: plain_pr_def plain_pr_for_def then_do_def add_cleanup_def
      split: prod.splits sum.splits)

lemma make_a_commit_multi_raises:
  "fst (make_a_commit_multi rn rs f w) = Inl e \<Longrightarrow> e = OSError \<or> e = AttributeError ''sorted''"
  by (auto simp: make_a_commit_multi_def make_a_commit_def write_file_def
      split: list.splits if_splits)

lemma plain_pr_caught:
  "fst (plain_pr X rn rs w) \<noteq> Inl ProcessExecutionError
   \<and> fst (plain_pr X rn rs w) \<noteq> Inl GithubException"
proof -
  obtain r1 w1 where m: "make_a_commit_multi rn rs False w = (r1, w1)"
    by (cases "make_a_commit_multi rn rs False w")
  obtain r2 w2 where n: "non_interactive_submit_commit_multi X rn rs w1 = (r2, w2)"
    by (cases "non_interactive_submit_commit_multi X rn rs w1")
  from make_a_commit_multi_raises [of rn rs False w] m
  have a: "r1 \<noteq> Inl ProcessExecutionError" "r1 \<noteq> Inl GithubException" by auto
  from non_interactive_submit_caught [of X rn rs w1] n
  have b: "r2 \<noteq> Inl ProcessExecutionError" "r2 \<noteq> Inl GithubException" by simp_all
  from m n a b show ?thesis
    by (cases r1; cases r2) (simp_all add: plain_pr_unfold)
qed

text \<open>
  Claim C7. \<open>non_interactive_submit_commit_multi\<close> never lets a
  \<open>ProcessExecutionError\<close> or a \<open>GithubException\<close> out, and neither do the three
  handlers of the terminal tasks. Whenever a \<open>git\<close> command it ran (the branch query,
  the commit or the push) failed with \<open>ProcessExecutionError\<close>, no call follows it in
  the log and the function returns the text \<open>Failed to commit for <reponame>.\<close>;
  whenever a pull request call failed with \<open>GithubException\<close>, no call follows it and
  the function returns \<open>Failed to create pr for <reponame>.\<close>. It makes at most four
  outside calls, each of them once: a failed call is not made again.
\<close>

theorem failures_become_status_strings:
  "fst (non_interactive_submit_commit_multi X rn rs w) \<noteq> Inl ProcessExecutionError
   \<and> fst (non_interactive_submit_commit_multi X rn rs w) \<noteq> Inl GithubException
   \<and> (\<exists>new. calls (snd (non_interactive_submit_commit_multi X rn rs w)) = calls w @ new
            \<and> distinct new \<and> length new \<le> 4)
   \<and> (\<forall>pre dir args post.
         calls (snd (non_interactive_submit_commit_multi X rn rs w))
           = calls w @ pre @ Git dir args # post
         \<and> git_out X (calls w @ pre) dir args = Inl ProcessExecutionError \<longrightarrow>
         post = []
         \<and> fst (non_interactive_submit_commit_multi X rn rs w)
           = Inr (''Failed to commit for '' @ rn @ ''.''))
   \<and> (\<forall>pre rn' title body from_branch to_branch post.
         calls (snd (non_interactive_submit_commit_multi X rn rs w))
           = calls w @ pre @ CreatePr rn' title body from_branch to_branch # post
         \<and> create_pr_out X (calls w @ pre) rn' title body from_branch to_branch = Inl GithubException \<longrightarrow>
         post = []
         \<and> fst (non_interactive_submit_commit_multi X rn rs w)
           = Inr (''Failed to create pr for '' @ rn @ ''.''))
   \<and> fst (plain_pr X rn rs w) \<noteq> Inl ProcessExecutionError
   \<and> fst (plain_pr X rn rs w) \<noteq> Inl GithubException
   \<and> fst (issue_and_branch X rn rs w) = Inl (NameError ''reposave'')
   \<and> fst (full_pr X rn rs w) = Inl (NameError ''make_issue_multi'')"
proof -
  let ?R = "non_interactive_submit_commit_multi X rn rs w"
  let ?T = "submit_commit_try X rn rs w"
  have w: "snd ?R = snd ?T" by (rule non_interactive_submit_world)
  have commit: "fst ?R = Inr (''Failed to commit for '' @ rn @ ''.'')"
    if "fst ?T = Inl ProcessExecutionError"
    using that by (rule non_interactive_submit_status [THEN conjunct1, THEN mp])
  have pr: "fst ?R = Inr (''Failed to create pr for '' @ rn @ ''.'')"
    if "fst ?T = Inl GithubException"
    using that by (rule non_interactive_submit_status [THEN conjunct2, THEN mp])
  have c1: "fst ?R \<noteq> Inl ProcessExecutionError"
    by (rule non_interactive_submit_caught [THEN conjunct1])
  have c2: "fst ?R \<noteq> Inl GithubException"
    by (rule non_interactive_submit_caught [THEN conjunct2, THEN conjunct1])
  have c3: "\<exists>new. calls (snd ?R) = calls w @ new \<and> distinct new \<and> length new \<le> 4"
    unfolding w by (rule submit_commit_try_cases)
  from submit_commit_try_log [of X rn rs w] obtain new where
    new: "calls (snd ?T) = calls w @ new"
    and every: "\<forall>pre c post. new = pre @ c # post \<longrightarrow>
          (\<forall>d args e. c = Git d args \<and> git_out X (calls w @ pre) d args = Inl e \<longrightarrow>
             post = [] \<and> fst ?T = Inl e)
          \<and> (\<forall>rn' t b f tb e. c = CreatePr rn' t b f tb
                \<and> create_pr_out X (calls w @ pre) rn' t b f tb = Inl e \<longrightarrow>
             post = [] \<and> fst ?T = Inl e)"
    by (elim exE conjE)
  have c4: "\<forall>pre dir args post.
         calls (snd ?R) = calls w @ pre @ Git dir args # post
         \<and> git_out X (calls w @ pre) dir args = Inl ProcessExecutionError \<longrightarrow>
         post = [] \<and> fst ?R = Inr (''Failed to commit for '' @ rn @ ''.'')"
  proof (intro allI impI)
    fix pre dir args post
    assume h: "calls (snd ?R) = calls w @ pre @ Git dir args # post
         \<and> git_out X (calls w @ pre) dir args = Inl ProcessExecutionError"
    from h new have eq: "new = pre @ Git dir args # post" by (simp add: w)
    from h have out: "git_out X (calls w @ pre) dir args = Inl ProcessExecutionError"
      by (rule conjunct2)
    note both = every [rule_format, OF eq]
    have "post = [] \<and> fst ?T = Inl ProcessExecutionError"
      by (rule both [THEN conjunct1, rule_format, OF conjI [OF refl out]])
    then show "post = [] \<and> fst ?R = Inr (''Failed to commit for '' @ rn @ ''.'')"
      using commit by (intro conjI) (erule conjunct1, erule conjunct2 [THEN commit])
  qed
  have c5: "\<forall>pre rn' title body from_branch to_branch post.
         calls (snd ?R) = calls w @ pre @ CreatePr rn' title body from_branch to_branch # post
         \<and> create_pr_out X (calls w @ pre) rn' title body from_branch to_branch = Inl GithubException \<longrightarrow>
         post = [] \<and> fst ?R = Inr (''Failed to create pr for '' @ rn @ ''.'')"
  proof (intro allI impI)
    fix pre rn' title body from_branch to_branch post
    assume h: "calls (snd ?R) = calls w @ pre @ CreatePr rn' title body from_branch to_branch # post
         \<and> create_pr_out X (calls w @ pre) rn' title body from_branch to_branch = Inl GithubException"
    from h new have eq: "new = pre @ CreatePr rn' title body from_branch to_branch # post"
      by (simp add: w)
    from h have out: "create_pr_out X (calls w @ pre) rn' title body from_branch to_branch
                      = Inl GithubException"
      by (rule conjunct2)
    note both = every [rule_format, OF eq]
    have "post = [] \<and> fst ?T = Inl GithubException"
      by (rule both [THEN conjunct2, rule_format, OF conjI [OF refl out]])
    then show "post = [] \<and> fst ?R = Inr (''Failed to create pr for '' @ rn @ ''.'')"
      by (intro conjI) (erule conjunct1, erule conjunct2 [THEN pr])
  qed
  have c6: "fst (plain_pr X rn rs w) \<noteq> Inl ProcessExecutionError"
    by (rule plain_pr_caught [THEN conjunct1])
  have c7: "fst (plain_pr X rn rs w) \<noteq> Inl GithubException"
    by (rule plain_pr_caught [THEN conjunct2])
  have c8: "fst (issue_and_branch X rn rs w) = Inl (NameError ''reposave'')"
    by (simp add: issue_and_branch_def issue_and_branch_for_def then_do_def)
  have c9: "fst (full_pr X rn rs w) = Inl (NameError ''make_issue_multi'')"
    by (simp add: full_pr_def full_pr_for_def then_do_def)
  show ?thesis
    by (rule conjI [OF c1 conjI [OF c2 conjI [OF c3 conjI [OF c4 conjI [OF c5
          conjI [OF c6 conjI [OF c7 conjI [OF c8 c9]]]]]]]])
qed

theorem failures_become_status_strings_witness:
  "calls (snd (non_interactive_submit_commit_multi commit_fails ''R'' [fix_recieve] world1))
     = calls world1 @ [Git ''/work/R'' [''symbolic-ref'', ''--short'', ''HEAD'']]
       @ Git ''/work/R'' [''commit'', ''-F'', ''__commit__.txt''] # []
   \<and> git_out commit_fails
        (calls world1 @ [Git ''/work/R'' [''symbolic-ref'', ''--short'', ''HEAD'']])
        ''/work/R'' [''commit'', ''-F'', ''__commit__.txt'']
      = Inl ProcessExecutionError
   \<and> fst (non_interactive_submit_commit_multi commit_fails ''R'' [fix_recieve] world1)
      = Inr ''Failed to commit for R.''
   \<and> calls (snd (non_interactive_submit_commit_multi push_fails ''R'' [fix_recieve] world1))
     = calls world1 @ [Git ''/work/R'' [''symbolic-ref'', ''--short'', ''HEAD''],
                       Git ''/work/R'' [''commit'', ''-F'', ''__commit__.txt'']]
       @ Git ''/work/R'' [''push'', ''origin'', ''master:bugfix_typo_receive''] # []
   \<and> git_out push_fails
        (calls world1 @ [Git ''/work/R'' [''symbolic-ref'', ''--short'', ''HEAD''],
                         Git ''/work/R'' [''commit'', ''-F'', ''__commit__.txt'']])
        ''/work/R'' [''push'', ''origin'', ''master:bugfix_typo_receive'']
      = Inl ProcessExecutionError
   \<and> fst (non_interactive_submit_commit_multi push_fails ''R'' [fix_recieve] world1)
      = Inr ''Failed to commit for R.''
   \<and> create_pr_out pr_fails
        (calls world1 @ [Git ''/work/R'' [''symbolic-ref'', ''--short'', ''HEAD''],
                         Git ''/work/R'' [''commit'', ''-F'', ''__commit__.txt''],
                         Git ''/work/R'' [''push'', ''origin'', ''master:bugfix_typo_receive'']])
        ''R'' ''docs: fix simple typo, recieve -> receive''
        (''There is a small typo in a.md.'' @ NL @ NL
         @ ''Should read `receive` rather than `recieve`.'' @ NL @ NL
         @ NL @ ''Semi-automated pull request generated by'' @ NL
         @ ''https://github.com/timgates42/meticulous/blob/master/docs/NOTE.md'')
        ''bugfix_typo_receive'' ''master''
      = Inl GithubException
   \<and> fst (non_interactive_submit_commit_multi pr_fails ''R'' [fix_recieve] world1)
      = Inr ''Failed to create pr for R.''"
proof -
  have c0: "calls world1 = []" by (simp add: world1_def world0_def)
  have g1: "git_out commit_fails [Git ''/work/R'' [''symbolic-ref'', ''--short'', ''HEAD'']]
        ''/work/R'' [''commit'', ''-F'', ''__commit__.txt'']
      = Inl ProcessExecutionError"
    by (simp add: commit_fails_def all_ok_def)
  have g2: "git_out push_fails [Git ''/work/R'' [''symbolic-ref'', ''--short'', ''HEAD''],
                         Git ''/work/R'' [''commit'', ''-F'', ''__commit__.txt'']]
        ''/work/R'' [''push'', ''origin'', ''master:bugfix_typo_receive'']
      = Inl ProcessExecutionError"
    by (simp add: push_fails_def all_ok_def)
  have p: "create_pr_out pr_fails = (\<lambda>log rn title body from_branch to_branch. Inl GithubException)"
    by (simp add: pr_fails_def all_ok_def)
  from failures_become_status_strings [of commit_fails "''R''" "[fix_recieve]" world1]
    failures_become_status_strings [of push_fails "''R''" "[fix_recieve]" world1]
    failures_become_status_strings [of pr_fails "''R''" "[fix_recieve]" world1]
  show ?thesis
    by (simp add: eval_commit_fails eval_push_fails eval_pr_fails c0 g1 g2 p)
qed

section \<open>The \<open>cleanup\<close> task\<close>

lemma queue_make_a_commit_multi: "queue (snd (make_a_commit_multi rn rs f w)) = queue w"
  by (simp add: make_a_commit_multi_def make_a_commit_def write_file_def split: list.splits)

lemma queue_submit_commit_try: "queue (snd (submit_commit_try X rn rs w)) = queue w"
  unfolding submit_commit_try_def non_interactive_prepare_commit_multi_def
    push_commit_multi_def git_def create_pr_def then_do_def get_note_def Let_def
  by (auto split: list.splits sum.splits prod.splits if_splits)

lemma queue_non_interactive_submit:
  "queue (snd (non_interactive_submit_commit_multi X rn rs w)) = queue w"
  by (simp add: non_interactive_submit_world queue_submit_commit_try)

text \<open>
  Claim C8, as stated, fails. \<open>git push\<close> fails during the submission of a batch of
  one record: the submission function returns \<open>Failed to commit for R.\<close>, the
  \<open>plain_pr\<close> handler returns normally, and a \<open>cleanup\<close> task for \<open>R\<close> is in the queue.
\<close>

theorem cleanup_after_failed_push_counterexample:
  "non_interactive_submit_commit_multi push_fails ''R'' [fix_recieve] world1
   = (Inr ''Failed to commit for R.'',
      world1\<lparr>calls := [Git ''/work/R'' [''symbolic-ref'', ''--short'', ''HEAD''],
                         Git ''/work/R'' [''commit'', ''-F'', ''__commit__.txt''],
                         Git ''/work/R'' [''push'', ''origin'', ''master:bugfix_typo_receive'']]\<rparr>)
   \<and> plain_pr push_fails ''R'' [fix_recieve] world0
   = (Inr (),
      world1\<lparr>calls := [Git ''/work/R'' [''symbolic-ref'', ''--short'', ''HEAD''],
                         Git ''/work/R'' [''commit'', ''-F'', ''__commit__.txt''],
                         Git ''/work/R'' [''push'', ''origin'', ''master:bugfix_typo_receive'']],
              queue := [\<lparr>name = ''cleanup'', interactive = True, priority = Some 20,
                         task_reponame = ''R'', repository_saves_multi = None\<rparr>]\<rparr>)"
proof -
  have m: "make_a_commit_multi ''R'' [fix_recieve] False world0 = (Inr (), world1)"
    by (simp add: make_a_commit_multi_def make_a_commit_def write_file_def world1_def world0_def
        fix_recieve_def)
  have q: "queue world1 = []" by (simp add: world1_def world0_def)
  show ?thesis
    by (simp add: plain_pr_unfold m eval_push_fails controller_add_def q)
qed

text \<open>
  Claim C8, amended. The \<open>plain_pr\<close> handler enqueues a \<open>cleanup\<close> task exactly when
  its submission call returns, and leaves the queue alone when that call raises. A
  \<open>ProcessExecutionError\<close> or a \<open>GithubException\<close> in the \<open>try\<close> block does not make
  the call raise: once the commit message is written, the handler returns normally
  and enqueues \<open>cleanup\<close>. The handlers \<open>issue_and_branch\<close> and \<open>full_pr\<close> enqueue
  nothing, since their submission calls raise.
\<close>

theorem cleanup_follows_every_returning_submission:
  "(fst (plain_pr X rn rs w) = Inr () \<longrightarrow>
      queue (snd (plain_pr X rn rs w))
        = queue w @ [\<lparr>name = ''cleanup'', interactive = True, priority = Some 20,
                       task_reponame = rn, repository_saves_multi = None\<rparr>])
   \<and> (fst (plain_pr X rn rs w) \<noteq> Inr () \<longrightarrow> queue (snd (plain_pr X rn rs w)) = queue w)
   \<and> (fst (make_a_commit_multi rn rs False w) = Inr ()
       \<and> (fst (submit_commit_try X rn rs (snd (make_a_commit_multi rn rs False w)))
             = Inl ProcessExecutionError
           \<or> fst (submit_commit_try X rn rs (snd (make_a_commit_multi rn rs False w)))
             = Inl GithubException) \<longrightarrow>
       fst (plain_pr X rn rs w) = Inr ())
   \<and> queue (snd (issue_and_branch X rn rs w)) = queue w
   \<and> queue (snd (full_pr X rn rs w)) = queue w"
proof -
  obtain r1 w1 where m: "make_a_commit_multi rn rs False w = (r1, w1)"
    by (cases "make_a_commit_multi rn rs False w")
  obtain r2 w2 where n: "non_interactive_submit_commit_multi X rn rs w1 = (r2, w2)"
    by (cases "non_interactive_submit_commit_multi X rn rs w1")
  from m queue_make_a_commit_multi [of rn rs False w] have q1: "queue w1 = queue w" by simp
  from n queue_non_interactive_submit [of X rn rs w1] q1 have q2: "queue w2 = queue w" by simp
  have a: "fst (plain_pr X rn rs w) = Inr () \<longrightarrow>
      queue (snd (plain_pr X rn rs w))
        = queue w @ [\<lparr>name = ''cleanup'', interactive = True, priority = Some 20,
                       task_reponame = rn, repository_saves_multi = None\<rparr>]"
    using m n q1 q2
    by (cases r1; cases r2) (simp_all add: plain_pr_unfold controller_add_def)
  have b: "fst (plain_pr X rn rs w) \<noteq> Inr () \<longrightarrow> queue (snd (plain_pr X rn rs w)) = queue w"
    using m n q1 q2
    by (cases r1; cases r2) (simp_all add: plain_pr_unfold controller_add_def)
  have c: "fst (make_a_commit_multi rn rs False w) = Inr ()
       \<and> (fst (submit_commit_try X rn rs (snd (make_a_commit_multi rn rs False w)))
             = Inl ProcessExecutionError
           \<or> fst (submit_commit_try X rn rs (snd (make_a_commit_multi rn rs False w)))
             = Inl GithubException) \<longrightarrow>
       fst (plain_pr X rn rs w) = Inr ()"
  proof
    assume h: "fst (make_a_commit_multi rn rs False w) = Inr ()
       \<and> (fst (submit_commit_try X rn rs (snd (make_a_commit_multi rn rs False w)))
             = Inl ProcessExecutionError
           \<or> fst (submit_commit_try X rn rs (snd (make_a_commit_multi rn rs False w)))
             = Inl GithubException)"
    with m have r1: "r1 = Inr ()" by simp
    from h m have "fst (submit_commit_try X rn rs w1) = Inl ProcessExecutionError
        \<or> fst (submit_commit_try X rn rs w1) = Inl GithubException"
      by simp
    with non_interactive_submit_status [of X rn rs w1] n
    obtain status where "r2 = Inr status" by auto
    with m n r1 show "fst (plain_pr X rn rs w) = Inr ()"
      by (simp add: plain_pr_unfold)
  qed
  have d: "queue (snd (issue_and_branch X rn rs w)) = queue w"
    by (simp add: issue_and_branch_def issue_and_branch_for_def then_do_def)
  have e: "queue (snd (full_pr X rn rs w)) = queue w"
    by (simp add: full_pr_def full_pr_for_def then_do_def)
  from a b c d e show ?thesis by blast
qed

theorem cleanup_follows_every_returning_submission_witness:
  "fst (plain_pr push_fails ''R'' [fix_recieve] world0) = Inr ()
   \<and> queue (snd (plain_pr push_fails ''R'' [fix_recieve] world0))
       = queue world0 @ [\<lparr>name = ''cleanup'', interactive = True, priority = Some 20,
                            task_reponame = ''R'', repository_saves_multi = None\<rparr>]
   \<and> fst (make_a_commit_multi ''R'' [fix_recieve] False world0) = Inr ()
   \<and> fst (submit_commit_try push_fails ''R'' [fix_recieve]
             (snd (make_a_commit_multi ''R'' [fix_recieve] False world0)))
       = Inl ProcessExecutionError
   \<and> fst (plain_pr all_ok ''R'' [fix_teh, fix_wierd] world0) \<noteq> Inr ()
   \<and> queue (snd (plain_pr all_ok ''R'' [fix_teh, fix_wierd] world0)) = queue world0"
proof -
  have m: "make_a_commit_multi ''R'' [fix_recieve] False world0 = (Inr (), world1)"
    by (simp add: make_a_commit_multi_def make_a_commit_def write_file_def world1_def world0_def
        fix_recieve_def)
  have t: "fst (submit_commit_try push_fails ''R'' [fix_recieve] world1) = Inl ProcessExecutionError"
    by (simp add: submit_commit_try_def then_do_def eval_prepare)
  have p: "fst (plain_pr all_ok ''R'' [fix_teh, fix_wierd] world0) \<noteq> Inr ()"
    by (simp add: plain_pr_unfold make_a_commit_multi_def)
  from cleanup_follows_every_returning_submission [of push_fails "''R''" "[fix_recieve]" world0]
    cleanup_follows_every_returning_submission [of all_ok "''R''" "[fix_teh, fix_wierd]" world0]
    m t p
  show ?thesis by simp
qed

end
